theory Spec2Isabelle
  imports Complex_Main
begin

section \<open>Posture monitor: the angle calculator and the frame loop of main.py\<close>

text \<open>
  The script has one pure function, \<^verbatim>\<open>calculate_angle\<close>, and one loop over camera
  frames that mutates seven module-level variables. The function is modelled twice: over the
  real numbers, which is the model the frame loop uses, and as numpy evaluates it on int64
  and float64 arrays, with integer wrap-around, overflow to infinity and NaN written out.
  The second model is related to the first on bounded coordinates. Rounding to the nearest
  double is outside both models. Pixel coordinates and the frame counter are Python
  integers, modelled as \<open>int\<close>.
\<close>

subsection \<open>calculate\_angle (main.py, lines 11-22)\<close>

type_synonym point = "real \<times> real"

text \<open>Elementwise difference of two length-2 arrays (\<^verbatim>\<open>a - b\<close>).\<close>

definition sub :: "point \<Rightarrow> point \<Rightarrow> point" where
  "sub a b = (fst a - fst b, snd a - snd b)"

text \<open>\<^verbatim>\<open>np.dot\<close> on two length-2 arrays.\<close>

definition dot :: "point \<Rightarrow> point \<Rightarrow> real" where
  "dot u v = fst u * fst v + snd u * snd v"

text \<open>\<^verbatim>\<open>np.linalg.norm\<close> on a length-2 array: the Euclidean length.\<close>

definition linalg_norm :: "point \<Rightarrow> real" where
  "linalg_norm u = sqrt (fst u * fst u + snd u * snd u)"

text \<open>\<^verbatim>\<open>np.clip(x, lo, hi)\<close>, which is \<^verbatim>\<open>minimum(maximum(x, lo), hi)\<close>.\<close>

definition clip :: "real \<Rightarrow> real \<Rightarrow> real \<Rightarrow> real" where
  "clip x lo hi = min (max x lo) hi"

text \<open>\<^verbatim>\<open>np.degrees\<close>: radians to degrees.\<close>

definition degrees :: "real \<Rightarrow> real" where
  "degrees r = r * 180 / pi"

text \<open>The divisor of line 20, with the constant \<^verbatim>\<open>1e-6\<close> added to the product of lengths.\<close>

definition denominator :: "point \<Rightarrow> point \<Rightarrow> real" where
  "denominator ba bc = linalg_norm ba * linalg_norm bc + 1 / 1000000"

definition cosine_angle :: "point \<Rightarrow> point \<Rightarrow> point \<Rightarrow> real" where
  "cosine_angle a b c =
     (let ba = sub a b; bc = sub c b
      in dot ba bc / denominator ba bc)"

definition calculate_angle :: "point \<Rightarrow> point \<Rightarrow> point \<Rightarrow> real" where
  "calculate_angle a b c =
     (let angle = arccos (clip (cosine_angle a b c) (- 1) 1)
      in degrees angle)"

subsection \<open>calculate\_angle as numpy evaluates it (main.py, lines 11-22)\<close>

text \<open>
  A float64 value: a finite number, an infinity or NaN. The sign of zero and subnormal
  underflow are not modelled.
\<close>

datatype float64 = Finite real | PosInf | NegInf | NaN

text \<open>
  What \<^verbatim>\<open>np.array\<close> makes of a pair: dtype int64 from two Python integers in the int64
  range, dtype float64 from two floats. A Python integer outside the int64 range gives
  neither and is outside this type.
\<close>

datatype ndarray = IntArr int int | FloatArr float64 float64

text \<open>The result of \<^verbatim>\<open>np.dot\<close> on two such arrays: an int64 or a float64 scalar.\<close>

datatype scalar = IntS int | FloatS float64

text \<open>
  An exact result this large or larger rounds to infinity in float64: the largest finite
  double plus half a unit in the last place.
\<close>

definition overflow_threshold :: real where
  "overflow_threshold = 2 ^ 1024 - 2 ^ 970"

text \<open>The float64 result of an operation whose exact result is \<open>r\<close>.\<close>

definition f64 :: "real \<Rightarrow> float64" where
  "f64 r = (if overflow_threshold \<le> r then PosInf
            else if r \<le> - overflow_threshold then NegInf
            else Finite r)"

text \<open>int64 arithmetic wraps modulo \<open>2 ^ 64\<close> into the signed range without any error.\<close>

definition wrap64 :: "int \<Rightarrow> int" where
  "wrap64 n = (n + 2 ^ 63) mod 2 ^ 64 - 2 ^ 63"

fun f64_neg :: "float64 \<Rightarrow> float64" where
  "f64_neg (Finite x) = Finite (- x)"
| "f64_neg PosInf = NegInf"
| "f64_neg NegInf = PosInf"
| "f64_neg NaN = NaN"

fun f64_add :: "float64 \<Rightarrow> float64 \<Rightarrow> float64" where
  "f64_add (Finite x) (Finite y) = f64 (x + y)"
| "f64_add NaN y = NaN"
| "f64_add x NaN = NaN"
| "f64_add PosInf NegInf = NaN"
| "f64_add NegInf PosInf = NaN"
| "f64_add PosInf y = PosInf"
| "f64_add x PosInf = PosInf"
| "f64_add NegInf y = NegInf"
| "f64_add x NegInf = NegInf"

definition f64_sub :: "float64 \<Rightarrow> float64 \<Rightarrow> float64" where
  "f64_sub x y = f64_add x (f64_neg y)"

fun f64_mul :: "float64 \<Rightarrow> float64 \<Rightarrow> float64" where
  "f64_mul (Finite x) (Finite y) = f64 (x * y)"
| "f64_mul NaN y = NaN"
| "f64_mul x NaN = NaN"
| "f64_mul PosInf (Finite y) = (if y = 0 then NaN else if 0 < y then PosInf else NegInf)"
| "f64_mul NegInf (Finite y) = (if y = 0 then NaN else if 0 < y then NegInf else PosInf)"
| "f64_mul (Finite x) PosInf = (if x = 0 then NaN else if 0 < x then PosInf else NegInf)"
| "f64_mul (Finite x) NegInf = (if x = 0 then NaN else if 0 < x then NegInf else PosInf)"
| "f64_mul PosInf PosInf = PosInf"
| "f64_mul PosInf NegInf = NegInf"
| "f64_mul NegInf PosInf = NegInf"
| "f64_mul NegInf NegInf = PosInf"

text \<open>
  Division of numpy scalars never raises: a zero divisor gives an infinity or NaN (with a
  warning), and infinity over infinity is NaN.
\<close>

fun f64_div :: "float64 \<Rightarrow> float64 \<Rightarrow> float64" where
  "f64_div (Finite x) (Finite y) =
     (if y = 0 then (if x = 0 then NaN else if 0 < x then PosInf else NegInf) else f64 (x / y))"
| "f64_div NaN y = NaN"
| "f64_div x NaN = NaN"
| "f64_div (Finite x) PosInf = Finite 0"
| "f64_div (Finite x) NegInf = Finite 0"
| "f64_div PosInf (Finite y) = (if 0 \<le> y then PosInf else NegInf)"
| "f64_div NegInf (Finite y) = (if 0 \<le> y then NegInf else PosInf)"
| "f64_div PosInf PosInf = NaN"
| "f64_div PosInf NegInf = NaN"
| "f64_div NegInf PosInf = NaN"
| "f64_div NegInf NegInf = NaN"

fun f64_sqrt :: "float64 \<Rightarrow> float64" where
  "f64_sqrt (Finite x) = (if x < 0 then NaN else Finite (sqrt x))"
| "f64_sqrt PosInf = PosInf"
| "f64_sqrt NegInf = NaN"
| "f64_sqrt NaN = NaN"

text \<open>\<^verbatim>\<open>np.clip\<close> as \<^verbatim>\<open>minimum(maximum(x, lo), hi)\<close>; NaN passes through.\<close>

fun f64_clip :: "float64 \<Rightarrow> real \<Rightarrow> real \<Rightarrow> float64" where
  "f64_clip (Finite x) lo hi = Finite (clip x lo hi)"
| "f64_clip PosInf lo hi = Finite hi"
| "f64_clip NegInf lo hi = Finite (min lo hi)"
| "f64_clip NaN lo hi = NaN"

text \<open>\<^verbatim>\<open>np.arccos\<close>: NaN outside \<open>[-1, 1]\<close> and on NaN (with a warning, no error).\<close>

fun f64_arccos :: "float64 \<Rightarrow> float64" where
  "f64_arccos (Finite x) = (if - 1 \<le> x \<and> x \<le> 1 then Finite (arccos x) else NaN)"
| "f64_arccos x = NaN"

fun f64_degrees :: "float64 \<Rightarrow> float64" where
  "f64_degrees (Finite r) = f64 (degrees r)"
| "f64_degrees x = x"

text \<open>Conversion of an array to float64, as numpy's type promotion and \<^verbatim>\<open>norm\<close> do.\<close>

fun astype_float :: "ndarray \<Rightarrow> float64 \<times> float64" where
  "astype_float (IntArr x y) = (Finite (real_of_int x), Finite (real_of_int y))"
| "astype_float (FloatArr x y) = (x, y)"

text \<open>\<^verbatim>\<open>a - b\<close>: in int64 when both arrays are int64, else in float64.\<close>

fun nd_sub :: "ndarray \<Rightarrow> ndarray \<Rightarrow> ndarray" where
  "nd_sub (IntArr x1 y1) (IntArr x2 y2) = IntArr (wrap64 (x1 - x2)) (wrap64 (y1 - y2))"
| "nd_sub a b =
     (let (x1, y1) = astype_float a; (x2, y2) = astype_float b
      in FloatArr (f64_sub x1 x2) (f64_sub y1 y2))"

text \<open>\<^verbatim>\<open>np.dot\<close>: in int64 when both arrays are int64, else in float64.\<close>

fun nd_dot :: "ndarray \<Rightarrow> ndarray \<Rightarrow> scalar" where
  "nd_dot (IntArr x1 y1) (IntArr x2 y2) = IntS (wrap64 (x1 * x2 + y1 * y2))"
| "nd_dot a b =
     (let (x1, y1) = astype_float a; (x2, y2) = astype_float b
      in FloatS (f64_add (f64_mul x1 x2) (f64_mul y1 y2)))"

text \<open>
  \<^verbatim>\<open>np.linalg.norm\<close>: the array is converted to float64 first, then the square root
  of its dot product with itself is taken.
\<close>

definition nd_norm :: "ndarray \<Rightarrow> float64" where
  "nd_norm a = (let (x, y) = astype_float a in f64_sqrt (f64_add (f64_mul x x) (f64_mul y y)))"

fun scalar_float :: "scalar \<Rightarrow> float64" where
  "scalar_float (IntS n) = Finite (real_of_int n)"
| "scalar_float (FloatS x) = x"

definition np_calculate_angle :: "ndarray \<Rightarrow> ndarray \<Rightarrow> ndarray \<Rightarrow> float64" where
  "np_calculate_angle a b c =
     (let ba = nd_sub a b;
          bc = nd_sub c b;
          cosine_angle = f64_div (scalar_float (nd_dot ba bc))
                                 (f64_add (f64_mul (nd_norm ba) (nd_norm bc)) (Finite (1 / 1000000)));
          angle = f64_arccos (f64_clip cosine_angle (- 1) 1)
      in f64_degrees angle)"

text \<open>The arrays made from a pair of finite floats and from a pair of integers.\<close>

definition float_array :: "point \<Rightarrow> ndarray" where
  "float_array p = FloatArr (Finite (fst p)) (Finite (snd p))"

definition int_array :: "int \<times> int \<Rightarrow> ndarray" where
  "int_array p = IntArr (fst p) (snd p)"

text \<open>
  Coordinates small enough that no square overflows a double, and integer coordinates small
  enough that nothing wraps in int64. Pixel coordinates are far inside both.
\<close>

definition float_point_ok :: "point \<Rightarrow> bool" where
  "float_point_ok p = (\<bar>fst p\<bar> \<le> 10 ^ 150 \<and> \<bar>snd p\<bar> \<le> 10 ^ 150)"

definition int_point_ok :: "int \<times> int \<Rightarrow> bool" where
  "int_point_ok p = (\<bar>fst p\<bar> \<le> 10 ^ 9 \<and> \<bar>snd p\<bar> \<le> 10 ^ 9)"

subsection \<open>Module state (main.py, lines 40-52)\<close>

record state =
  calibration_shoulder_angles :: "real list"
  calibration_neck_angles :: "real list"
  calibration_frames :: int
  is_calibrated :: bool
  shoulder_threshold :: real
  neck_threshold :: real
  last_alert_time :: real

definition alert_cooldown :: real where
  "alert_cooldown = 10"

definition sound_file :: string where
  "sound_file = ''alert.wav''"

definition init :: state where
  "init = \<lparr> calibration_shoulder_angles = [],
            calibration_neck_angles = [],
            calibration_frames = 0,
            is_calibrated = False,
            shoulder_threshold = 0,
            neck_threshold = 0,
            last_alert_time = 0 \<rparr>"

subsection \<open>What one loop iteration reads from the outside\<close>

text \<open>
  The three landmarks the loop uses, already scaled to the frame and truncated by
  \<^verbatim>\<open>int(...)\<close> (lines 69-74).
\<close>

record landmarks =
  left_shoulder :: "int \<times> int"
  right_shoulder :: "int \<times> int"
  left_ear :: "int \<times> int"

text \<open>
  \<open>ret\<close> is the flag of \<^verbatim>\<open>cap.read()\<close>; \<open>pose_landmarks\<close> is \<open>None\<close> when the
  pose estimator found no body; \<open>clock\<close> is what \<^verbatim>\<open>time.time()\<close> returns in this
  iteration; \<open>files\<close> are the paths for which \<^verbatim>\<open>os.path.exists\<close> holds; \<open>key_q\<close>
  says that \<^verbatim>\<open>cv2.waitKey(1) & 0xFF == ord('q')\<close>.
\<close>

record frame =
  ret :: bool
  pose_landmarks :: "landmarks option"
  clock :: real
  files :: "string set"
  key_q :: bool

subsection \<open>What one loop iteration does to the outside\<close>

datatype event =
    Calibrating int
  | CalibrationComplete real real
  | DrawLandmarks
  | DrawAngle "int \<times> int" "int \<times> int" "int \<times> int" real
  | Print string
  | PlaySound string
  | Status string
  | AngleReadout string real real
  | ImShow

datatype error = PlaysoundException string

text \<open>
  \<^verbatim>\<open>playsound\<close> is a library call: it plays the file, and raises when the file cannot
  be opened.
\<close>

definition playsound :: "frame \<Rightarrow> string \<Rightarrow> error + event list" where
  "playsound f path = (if path \<in> files f then Inr [PlaySound path] else Inl (PlaysoundException path))"

text \<open>
  \<^verbatim>\<open>np.mean\<close> of a list. On the empty list numpy returns NaN (with a warning) where this
  quotient is \<open>0\<close>; the loop only calls it on the 30 collected samples.
\<close>

definition mean :: "real list \<Rightarrow> real" where
  "mean xs = sum_list xs / real (length xs)"

subsection \<open>The loop body (main.py, lines 57-125)\<close>

definition pt :: "int \<times> int \<Rightarrow> point" where
  "pt p = (real_of_int (fst p), real_of_int (snd p))"

text \<open>Lines 77-78: the midpoint of the shoulders, with Python's floor division.\<close>

definition shoulder_mid :: "landmarks \<Rightarrow> int \<times> int" where
  "shoulder_mid lm =
     ((fst (left_shoulder lm) + fst (right_shoulder lm)) div 2,
      (snd (left_shoulder lm) + snd (right_shoulder lm)) div 2)"

text \<open>Line 79.\<close>

definition shoulder_angle :: "landmarks \<Rightarrow> real" where
  "shoulder_angle lm =
     calculate_angle (pt (left_shoulder lm)) (pt (shoulder_mid lm)) (pt (fst (shoulder_mid lm), 0))"

text \<open>Line 80.\<close>

definition neck_angle :: "landmarks \<Rightarrow> real" where
  "neck_angle lm =
     calculate_angle (pt (left_ear lm)) (pt (left_shoulder lm)) (pt (fst (left_shoulder lm), 0))"

text \<open>Lines 83-94: the calibration branch.\<close>

definition calibration :: "state \<Rightarrow> real \<Rightarrow> real \<Rightarrow> state \<times> event list" where
  "calibration st sa na =
     (if \<not> is_calibrated st \<and> calibration_frames st < 30 then
        (st\<lparr> calibration_shoulder_angles := calibration_shoulder_angles st @ [sa],
             calibration_neck_angles := calibration_neck_angles st @ [na],
             calibration_frames := calibration_frames st + 1 \<rparr>,
         [Calibrating (calibration_frames st + 1)])
      else if \<not> is_calibrated st then
        (let sth = mean (calibration_shoulder_angles st) - 10;
             nth = mean (calibration_neck_angles st) - 10
         in (st\<lparr> shoulder_threshold := sth, neck_threshold := nth, is_calibrated := True \<rparr>,
             [CalibrationComplete sth nth]))
      else (st, []))"

text \<open>The text printed at line 108.\<close>

definition alert_message :: string where
  "alert_message = ''Poor posture detected! Please sit up straight.''"

text \<open>Lines 116-120: the status line and the two angle readouts.\<close>

definition overlay :: "state \<Rightarrow> string \<Rightarrow> real \<Rightarrow> real \<Rightarrow> event list" where
  "overlay st status sa na =
     [Status status,
      AngleReadout ''Shoulder Angle'' sa (shoulder_threshold st),
      AngleReadout ''Neck Angle'' na (neck_threshold st)]"

text \<open>Lines 102-120: posture detection feedback.\<close>

definition posture_feedback :: "state \<Rightarrow> frame \<Rightarrow> real \<Rightarrow> real \<Rightarrow> error + state \<times> event list" where
  "posture_feedback st f sa na =
     (if is_calibrated st then
        (let current_time = clock f in
         if sa < shoulder_threshold st \<or> na < neck_threshold st then
           (if current_time - last_alert_time st > alert_cooldown then
              (case (if sound_file \<in> files f then playsound f sound_file else Inr []) of
                 Inl e \<Rightarrow> Inl e
               | Inr played \<Rightarrow>
                   Inr (st\<lparr> last_alert_time := current_time \<rparr>,
                        Print alert_message # played
                          @ overlay st ''Poor Posture'' sa na))
            else Inr (st, overlay st ''Poor Posture'' sa na))
         else Inr (st, overlay st ''Good Posture'' sa na))
      else Inr (st, []))"

text \<open>
  One iteration. A failed read continues with the next iteration at once (line 59), so it
  shows nothing and polls no key.
\<close>

definition loop_body :: "state \<Rightarrow> frame \<Rightarrow> error + state \<times> event list" where
  "loop_body st f =
     (if \<not> ret f then Inr (st, [])
      else
        (case pose_landmarks f of
           None \<Rightarrow> Inr (st, [ImShow])
         | Some lm \<Rightarrow>
             (let sa = shoulder_angle lm;
                  na = neck_angle lm;
                  (st1, ev1) = calibration st sa na;
                  ev2 = [DrawLandmarks,
                         DrawAngle (left_shoulder lm) (shoulder_mid lm) (fst (shoulder_mid lm), 0) sa,
                         DrawAngle (left_ear lm) (left_shoulder lm) (fst (left_shoulder lm), 0) na]
              in case posture_feedback st1 f sa na of
                   Inl e \<Rightarrow> Inl e
                 | Inr (st2, ev3) \<Rightarrow> Inr (st2, ev1 @ ev2 @ ev3 @ [ImShow]))))"

text \<open>
  The loop over a finite sequence of iterations: it stops at an error, at the quit key of a
  frame that was read, or when the sequence ends. The result holds the final state and the
  events of each iteration that ran.
\<close>

fun run :: "state \<Rightarrow> frame list \<Rightarrow> error + state \<times> event list list" where
  "run st [] = Inr (st, [])"
| "run st (f # fs) =
     (case loop_body st f of
        Inl e \<Rightarrow> Inl e
      | Inr (st1, ev) \<Rightarrow>
          if ret f \<and> key_q f then Inr (st1, [ev])
          else (case run st1 fs of
                  Inl e \<Rightarrow> Inl e
                | Inr (st2, evs) \<Rightarrow> Inr (st2, ev # evs)))"

subsection \<open>Observations on runs\<close>

text \<open>
  The iterations the loop really makes on a sequence: all up to and including the first
  frame that was read with the quit key down.
\<close>

fun executed :: "frame list \<Rightarrow> frame list" where
  "executed [] = []"
| "executed (f # fs) = (if ret f \<and> key_q f then [f] else f # executed fs)"

text \<open>The landmarks of an iteration that reaches line 66: the read succeeded and a pose was found.\<close>

definition detected :: "frame \<Rightarrow> landmarks option" where
  "detected f = (if ret f then pose_landmarks f else None)"

text \<open>The pairs (shoulder angle, neck angle) of the pose-detected iterations, in order.\<close>

definition samples :: "frame list \<Rightarrow> (real \<times> real) list" where
  "samples fs = map (\<lambda>lm. (shoulder_angle lm, neck_angle lm)) (List.map_filter detected (executed fs))"

text \<open>The log line of line 93.\<close>

fun is_complete :: "event \<Rightarrow> bool" where
  "is_complete (CalibrationComplete s n) = True"
| "is_complete e = False"

definition completions :: "event list list \<Rightarrow> nat" where
  "completions outs = length (filter is_complete (concat outs))"

text \<open>What lines 102-120 produce: the alert print, the sound, the status and the readouts.\<close>

fun is_feedback :: "event \<Rightarrow> bool" where
  "is_feedback (Print s) = True"
| "is_feedback (PlaySound p) = True"
| "is_feedback (Status s) = True"
| "is_feedback (AngleReadout l a t) = True"
| "is_feedback e = False"

fun is_playsound :: "event \<Rightarrow> bool" where
  "is_playsound (PlaySound p) = True"
| "is_playsound e = False"

text \<open>The status texts an iteration puts on the frame.\<close>

fun statuses :: "event list \<Rightarrow> string list" where
  "statuses [] = []"
| "statuses (Status s # es) = s # statuses es"
| "statuses (e # es) = statuses es"

text \<open>An iteration fired the alert when it printed the alert message.\<close>

definition fired :: "event list \<Rightarrow> bool" where
  "fired evs = (Print alert_message \<in> set evs)"

text \<open>The clock readings of the iterations that fired, in order.\<close>

definition alert_times :: "frame list \<Rightarrow> event list list \<Rightarrow> real list" where
  "alert_times fs outs = map (\<lambda>p. clock (fst p)) (filter (\<lambda>p. fired (snd p)) (zip fs outs))"

text \<open>Each time is more than the cooldown after the one before it, starting from \<open>t\<close>.\<close>

fun spaced :: "real \<Rightarrow> real list \<Rightarrow> bool" where
  "spaced t [] = True"
| "spaced t (u # us) = (u - t > alert_cooldown \<and> spaced u us)"

subsection \<open>Example inputs\<close>

text \<open>
  Landmarks in pixels of a 640 by 480 frame (the y axis points down): shoulders at the same
  height, and shoulders tilted by 45 degrees.
\<close>

definition level :: landmarks where
  "level = \<lparr> left_shoulder = (400, 300), right_shoulder = (200, 300), left_ear = (420, 180) \<rparr>"

definition tilted :: landmarks where
  "tilted = \<lparr> left_shoulder = (400, 200), right_shoulder = (200, 400), left_ear = (420, 80) \<rparr>"

text \<open>An iteration that reads a frame with a pose in it, at clock reading \<open>t\<close>, no key pressed.\<close>

definition seen :: "landmarks \<Rightarrow> real \<Rightarrow> string set \<Rightarrow> frame" where
  "seen lm t fl = \<lparr> ret = True, pose_landmarks = Some lm, clock = t, files = fl, key_q = False \<rparr>"

text \<open>
  The state once 30 samples of 80 degrees have been collected for both angles, and the
  state after the next pose-detected iteration has turned them into thresholds, with no
  alert fired yet.
\<close>

definition collected_80 :: state where
  "collected_80 = \<lparr> calibration_shoulder_angles = replicate 30 80,
                     calibration_neck_angles = replicate 30 80,
                     calibration_frames = 30,
                     is_calibrated = False,
                     shoulder_threshold = 0,
                     neck_threshold = 0,
                     last_alert_time = 0 \<rparr>"

text \<open>The state after 30 iterations that each saw the level shoulders.\<close>

definition collected_level :: state where
  "collected_level = \<lparr> calibration_shoulder_angles = replicate 30 (shoulder_angle level),
                        calibration_neck_angles = replicate 30 (neck_angle level),
                        calibration_frames = 30,
                        is_calibrated = False,
                        shoulder_threshold = 0,
                        neck_threshold = 0,
                        last_alert_time = 0 \<rparr>"

definition calibrated_80 :: state where
  "calibrated_80 = \<lparr> calibration_shoulder_angles = replicate 30 80,
                     calibration_neck_angles = replicate 30 80,
                     calibration_frames = 30,
                     is_calibrated = True,
                     shoulder_threshold = 70,
                     neck_threshold = 70,
                     last_alert_time = 0 \<rparr>"

section \<open>The angle calculator\<close>

lemma linalg_norm_nonneg: "0 \<le> linalg_norm u"
  by (simp add: linalg_norm_def)

lemma denominator_pos: "0 < denominator ba bc"
proof -
  have "0 \<le> linalg_norm ba * linalg_norm bc"
    by (simp add: linalg_norm_nonneg)
  then show ?thesis
    by (simp add: denominator_def add_nonneg_pos)
qed

lemma clip_bounds: "- 1 \<le> clip x (- 1) 1 \<and> clip x (- 1) 1 \<le> 1"
  by (simp add: clip_def)

lemma degrees_arccos_range:
  assumes "- 1 \<le> y" "y \<le> 1"
  shows "0 \<le> degrees (arccos y) \<and> degrees (arccos y) \<le> 180"
proof -
  have lo: "0 \<le> arccos y" and hi: "arccos y \<le> pi"
    using assms by (simp_all add: arccos_lbound arccos_ubound)
  have "0 \<le> arccos y * 180 / pi"
    using lo by simp
  moreover have "arccos y * 180 / pi \<le> 180"
    using hi by (simp add: pos_divide_le_eq)
  ultimately show ?thesis
    by (simp add: degrees_def)
qed

lemma calculate_angle_real_range: "0 \<le> calculate_angle a b c \<and> calculate_angle a b c \<le> 180"
  unfolding calculate_angle_def Let_def
  using clip_bounds [of "cosine_angle a b c"] by (intro degrees_arccos_range) simp_all





lemma cosine_angle_degenerate: "a = b \<or> c = b \<Longrightarrow> cosine_angle a b c = 0"
  by (auto simp: cosine_angle_def dot_def sub_def)

lemma calculate_angle_of_cosine_0: "cosine_angle a b c = 0 \<Longrightarrow> calculate_angle a b c = 90"
  by (simp add: calculate_angle_def clip_def degrees_def)



subsection \<open>The angle as numpy computes it\<close>

lemma f64_finite: "\<bar>r\<bar> < overflow_threshold \<Longrightarrow> f64 r = Finite r"
  by (auto simp: f64_def)

lemma wrap64_id: "- (2 ^ 63) \<le> n \<Longrightarrow> n < 2 ^ 63 \<Longrightarrow> wrap64 n = n"
  by (simp add: wrap64_def)

lemma abs_mult_le: "\<bar>x\<bar> \<le> M \<Longrightarrow> \<bar>y\<bar> \<le> M \<Longrightarrow> \<bar>x * y\<bar> \<le> M * M"
  for x y M :: "'a::linordered_idom"
proof -
  assume h: "\<bar>x\<bar> \<le> M" "\<bar>y\<bar> \<le> M"
  have "\<bar>x\<bar> * \<bar>y\<bar> \<le> M * M"
    using h by (intro mult_mono) simp_all
  then show ?thesis by (simp add: abs_mult)
qed

lemma abs_dot_le:
  fixes u0 u1 v0 v1 M :: "'a::linordered_idom"
  assumes "\<bar>u0\<bar> \<le> M" "\<bar>u1\<bar> \<le> M" "\<bar>v0\<bar> \<le> M" "\<bar>v1\<bar> \<le> M"
  shows "\<bar>u0 * v0 + u1 * v1\<bar> \<le> 2 * (M * M)"
proof -
  have "\<bar>u0 * v0\<bar> \<le> M * M" "\<bar>u1 * v1\<bar> \<le> M * M"
    using assms by (simp_all add: abs_mult_le)
  then show ?thesis by linarith
qed

lemma norm_product_le:
  assumes "\<bar>u0\<bar> \<le> M" "\<bar>u1\<bar> \<le> M" "\<bar>v0\<bar> \<le> M" "\<bar>v1\<bar> \<le> M"
  shows "linalg_norm (u0, u1) * linalg_norm (v0, v1) \<le> 2 * (M * M)"
proof -
  have m: "0 \<le> M" using assms(1) by linarith
  have su: "u0 * u0 + u1 * u1 \<le> 2 * (M * M)"
    using abs_dot_le [OF assms(1,2) assms(1,2)] by linarith
  have sv: "v0 * v0 + v1 * v1 \<le> 2 * (M * M)"
    using abs_dot_le [OF assms(3,4) assms(3,4)] by linarith
  have "sqrt (u0 * u0 + u1 * u1) \<le> sqrt (2 * (M * M))"
    using su by simp
  moreover have "sqrt (v0 * v0 + v1 * v1) \<le> sqrt (2 * (M * M))"
    using sv by simp
  ultimately have "sqrt (u0 * u0 + u1 * u1) * sqrt (v0 * v0 + v1 * v1)
      \<le> sqrt (2 * (M * M)) * sqrt (2 * (M * M))"
    by (intro mult_mono) simp_all
  also have "\<dots> = 2 * (M * M)"
    using m by simp
  finally show ?thesis
    by (simp add: linalg_norm_def)
qed

lemma f64_degrees_arccos:
  assumes "- 1 \<le> y" "y \<le> 1" "180 < overflow_threshold"
  shows "f64_degrees (f64_arccos (Finite y)) = Finite (degrees (arccos y))"
proof -
  have "0 \<le> degrees (arccos y) \<and> degrees (arccos y) \<le> 180"
    using assms(1,2) by (rule degrees_arccos_range)
  then have "\<bar>degrees (arccos y)\<bar> < overflow_threshold"
    using assms(3) by linarith
  then show ?thesis
    using assms(1,2) by (simp add: f64_finite)
qed

lemma float_pipeline:
  assumes b: "\<bar>u0\<bar> \<le> M" "\<bar>u1\<bar> \<le> M" "\<bar>v0\<bar> \<le> M" "\<bar>v1\<bar> \<le> M"
    and m: "1 \<le> M" and t: "2000000 * (M * M) < overflow_threshold"
  shows "f64_degrees (f64_arccos (f64_clip
           (f64_div (Finite (u0 * v0 + u1 * v1))
              (f64_add
                 (f64_mul (f64_sqrt (f64_add (f64_mul (Finite u0) (Finite u0)) (f64_mul (Finite u1) (Finite u1))))
                          (f64_sqrt (f64_add (f64_mul (Finite v0) (Finite v0)) (f64_mul (Finite v1) (Finite v1)))))
                 (Finite (1 / 1000000))))
           (- 1) 1))
         = Finite (degrees (arccos (clip (dot (u0, u1) (v0, v1) / denominator (u0, u1) (v0, v1)) (- 1) 1)))"
proof -
  have mm: "1 \<le> M * M"
  proof -
    have "1 * 1 \<le> M * M"
      using m by (intro mult_mono) simp_all
    then show ?thesis by simp
  qed
  have t1: "M * M < overflow_threshold" "2 * (M * M) < overflow_threshold"
    "2 * (M * M) + 1 < overflow_threshold" "180 < overflow_threshold"
    using t mm by linarith+
  have sq: "f64_mul (Finite x) (Finite y) = Finite (x * y)" if "\<bar>x\<bar> \<le> M" "\<bar>y\<bar> \<le> M" for x y
    using abs_mult_le [OF that] t1(1) by (simp add: f64_finite)
  have su: "f64_add (Finite (u0 * u0)) (Finite (u1 * u1)) = Finite (u0 * u0 + u1 * u1)"
    using abs_dot_le [OF b(1,2) b(1,2)] t1(2) by (simp add: f64_finite)
  have sv: "f64_add (Finite (v0 * v0)) (Finite (v1 * v1)) = Finite (v0 * v0 + v1 * v1)"
    using abs_dot_le [OF b(3,4) b(3,4)] t1(2) by (simp add: f64_finite)
  have nu: "f64_sqrt (Finite (u0 * u0 + u1 * u1)) = Finite (linalg_norm (u0, u1))"
    by (simp add: linalg_norm_def add_nonneg_nonneg not_less)
  have nv: "f64_sqrt (Finite (v0 * v0 + v1 * v1)) = Finite (linalg_norm (v0, v1))"
    by (simp add: linalg_norm_def add_nonneg_nonneg not_less)
  have np: "0 \<le> linalg_norm (u0, u1) * linalg_norm (v0, v1)"
    by (simp add: linalg_norm_nonneg)
  have nle: "linalg_norm (u0, u1) * linalg_norm (v0, v1) \<le> 2 * (M * M)"
    by (rule norm_product_le [OF b])
  have pr: "f64_mul (Finite (linalg_norm (u0, u1))) (Finite (linalg_norm (v0, v1)))
      = Finite (linalg_norm (u0, u1) * linalg_norm (v0, v1))"
    using np nle t1(2) by (simp add: f64_finite)
  have den: "f64_add (Finite (linalg_norm (u0, u1) * linalg_norm (v0, v1))) (Finite (1 / 1000000))
      = Finite (denominator (u0, u1) (v0, v1))"
    using np nle t1(3) by (simp add: f64_finite denominator_def)
  have dlo: "1 / 1000000 \<le> denominator (u0, u1) (v0, v1)"
    using np by (simp add: denominator_def)
  have dpos: "0 < denominator (u0, u1) (v0, v1)"
    by (rule denominator_pos)
  have dle: "\<bar>u0 * v0 + u1 * v1\<bar> \<le> 2 * (M * M)"
    by (rule abs_dot_le [OF b])
  have "\<bar>(u0 * v0 + u1 * v1) / denominator (u0, u1) (v0, v1)\<bar>
      = \<bar>u0 * v0 + u1 * v1\<bar> / denominator (u0, u1) (v0, v1)"
    using dpos by simp
  also have "\<dots> \<le> \<bar>u0 * v0 + u1 * v1\<bar> / (1 / 1000000)"
    using dlo by (intro divide_left_mono) simp_all
  also have "\<dots> = 1000000 * \<bar>u0 * v0 + u1 * v1\<bar>"
    by simp
  also have "\<dots> \<le> 1000000 * (2 * (M * M))"
    using dle by (intro mult_left_mono) simp_all
  also have "\<dots> = 2000000 * (M * M)"
    by simp
  finally have q: "\<bar>(u0 * v0 + u1 * v1) / denominator (u0, u1) (v0, v1)\<bar> < overflow_threshold"
    using t by linarith
  have dv: "f64_div (Finite (u0 * v0 + u1 * v1)) (Finite (denominator (u0, u1) (v0, v1)))
      = Finite (dot (u0, u1) (v0, v1) / denominator (u0, u1) (v0, v1))"
    using dpos q by (simp add: f64_finite dot_def)
  have cb: "- 1 \<le> clip (dot (u0, u1) (v0, v1) / denominator (u0, u1) (v0, v1)) (- 1) 1"
    "clip (dot (u0, u1) (v0, v1) / denominator (u0, u1) (v0, v1)) (- 1) 1 \<le> 1"
    using clip_bounds by simp_all
  show ?thesis
    unfolding sq [OF b(1) b(1)] sq [OF b(2) b(2)] sq [OF b(3) b(3)] sq [OF b(4) b(4)]
      su sv nu nv pr den dv f64_clip.simps
    by (rule f64_degrees_arccos [OF cb t1(4)])
qed

lemma float_dot:
  assumes b: "\<bar>u0\<bar> \<le> M" "\<bar>u1\<bar> \<le> M" "\<bar>v0\<bar> \<le> M" "\<bar>v1\<bar> \<le> M"
    and t: "2 * (M * M) < overflow_threshold"
  shows "f64_add (f64_mul (Finite u0) (Finite v0)) (f64_mul (Finite u1) (Finite v1))
         = Finite (u0 * v0 + u1 * v1)"
proof -
  have "0 \<le> M * M" by simp
  with t have t1: "M * M < overflow_threshold" by linarith
  have "f64_mul (Finite u0) (Finite v0) = Finite (u0 * v0)"
    using abs_mult_le [OF b(1,3)] t1 by (simp add: f64_finite)
  moreover have "f64_mul (Finite u1) (Finite v1) = Finite (u1 * v1)"
    using abs_mult_le [OF b(2,4)] t1 by (simp add: f64_finite)
  ultimately show ?thesis
    using abs_dot_le [OF b] t by (simp add: f64_finite)
qed

lemma float_threshold: "2000000 * ((2 * 10 ^ 150) * (2 * 10 ^ 150)) < overflow_threshold"
  by (simp add: overflow_threshold_def)

lemma float_sub:
  assumes "\<bar>x\<bar> \<le> 10 ^ 150" "\<bar>y\<bar> \<le> 10 ^ 150"
  shows "f64_sub (Finite x) (Finite y) = Finite (x - y)" and "\<bar>x - y\<bar> \<le> 2 * 10 ^ 150"
proof -
  show d: "\<bar>x - y\<bar> \<le> 2 * 10 ^ 150"
    using assms by linarith
  have "(2::real) * 10 ^ 150 < overflow_threshold"
    by (simp add: overflow_threshold_def)
  with d have "\<bar>x - y\<bar> < overflow_threshold" by linarith
  then show "f64_sub (Finite x) (Finite y) = Finite (x - y)"
    by (simp add: f64_sub_def f64_finite)
qed

lemma np_calculate_angle_float:
  assumes "float_point_ok a" "float_point_ok b" "float_point_ok c"
  shows "np_calculate_angle (float_array a) (float_array b) (float_array c) = Finite (calculate_angle a b c)"
proof -
  obtain ax ay bx by' cx cy where p: "a = (ax, ay)" "b = (bx, by')" "c = (cx, cy)"
    by (cases a, cases b, cases c) blast
  have h: "\<bar>ax\<bar> \<le> 10 ^ 150" "\<bar>ay\<bar> \<le> 10 ^ 150" "\<bar>bx\<bar> \<le> 10 ^ 150" "\<bar>by'\<bar> \<le> 10 ^ 150"
    "\<bar>cx\<bar> \<le> 10 ^ 150" "\<bar>cy\<bar> \<le> 10 ^ 150"
    using assms by (simp_all add: float_point_ok_def p)
  let ?M = "2 * 10 ^ 150 :: real"
  have m: "1 \<le> ?M" by simp
  have t: "2000000 * (?M * ?M) < overflow_threshold"
    by (rule float_threshold)
  have t2: "2 * (?M * ?M) < overflow_threshold"
    using t by simp
  note s = float_sub [OF h(1) h(3)] float_sub [OF h(2) h(4)] float_sub [OF h(5) h(3)] float_sub [OF h(6) h(4)]
  have ba: "nd_sub (float_array a) (float_array b) = FloatArr (Finite (ax - bx)) (Finite (ay - by'))"
    by (simp add: float_array_def p s)
  have bc: "nd_sub (float_array c) (float_array b) = FloatArr (Finite (cx - bx)) (Finite (cy - by'))"
    by (simp add: float_array_def p s)
  have d: "scalar_float (nd_dot (FloatArr (Finite (ax - bx)) (Finite (ay - by')))
                                (FloatArr (Finite (cx - bx)) (Finite (cy - by'))))
      = Finite ((ax - bx) * (cx - bx) + (ay - by') * (cy - by'))"
    using float_dot [OF s(2) s(4) s(6) s(8) t2] by simp
  have "np_calculate_angle (float_array a) (float_array b) (float_array c)
      = Finite (degrees (arccos (clip (dot (ax - bx, ay - by') (cx - bx, cy - by')
                                       / denominator (ax - bx, ay - by') (cx - bx, cy - by')) (- 1) 1)))"
    unfolding np_calculate_angle_def Let_def ba bc d
    using float_pipeline [OF s(2) s(4) s(6) s(8) m t]
    by (simp add: nd_norm_def)
  then show ?thesis
    by (simp add: calculate_angle_def cosine_angle_def sub_def p Let_def)
qed

lemma int_sub:
  assumes "\<bar>x\<bar> \<le> 10 ^ 9" "\<bar>y\<bar> \<le> 10 ^ 9"
  shows "wrap64 (x - y) = x - y" and "\<bar>x - y\<bar> \<le> 2 * 10 ^ 9"
proof -
  show d: "\<bar>x - y\<bar> \<le> 2 * 10 ^ 9"
    using assms by linarith
  then have "- (2 ^ 63) \<le> x - y" "x - y < 2 ^ 63"
    by simp_all
  then show "wrap64 (x - y) = x - y"
    by (rule wrap64_id)
qed

lemma int_dot:
  fixes u0 u1 v0 v1 :: int
  assumes b: "\<bar>u0\<bar> \<le> 2 * 10 ^ 9" "\<bar>u1\<bar> \<le> 2 * 10 ^ 9" "\<bar>v0\<bar> \<le> 2 * 10 ^ 9" "\<bar>v1\<bar> \<le> 2 * 10 ^ 9"
  shows "wrap64 (u0 * v0 + u1 * v1) = u0 * v0 + u1 * v1"
proof -
  have "\<bar>u0 * v0 + u1 * v1\<bar> \<le> 2 * ((2 * 10 ^ 9) * (2 * 10 ^ 9))"
    by (rule abs_dot_le [OF b])
  then have "- (2 ^ 63) \<le> u0 * v0 + u1 * v1" "u0 * v0 + u1 * v1 < 2 ^ 63"
    by simp_all
  then show ?thesis
    by (rule wrap64_id)
qed

lemma int_threshold: "2000000 * ((2 * 10 ^ 9) * (2 * 10 ^ 9)) < overflow_threshold"
  by (simp add: overflow_threshold_def)

lemma real_abs_bound: "\<bar>n\<bar> \<le> 2 * 10 ^ 9 \<Longrightarrow> \<bar>real_of_int n\<bar> \<le> 2 * 10 ^ 9" for n :: int
proof -
  assume "\<bar>n\<bar> \<le> 2 * 10 ^ 9"
  then have "real_of_int \<bar>n\<bar> \<le> real_of_int (2 * 10 ^ 9)"
    by (rule of_int_le_iff [THEN iffD2])
  then show ?thesis by simp
qed

lemma np_calculate_angle_int:
  assumes "int_point_ok a" "int_point_ok b" "int_point_ok c"
  shows "np_calculate_angle (int_array a) (int_array b) (int_array c)
         = Finite (calculate_angle (pt a) (pt b) (pt c))"
proof -
  obtain ax ay bx by' cx cy where p: "a = (ax, ay)" "b = (bx, by')" "c = (cx, cy)"
    by (cases a, cases b, cases c) blast
  have h: "\<bar>ax\<bar> \<le> 10 ^ 9" "\<bar>ay\<bar> \<le> 10 ^ 9" "\<bar>bx\<bar> \<le> 10 ^ 9" "\<bar>by'\<bar> \<le> 10 ^ 9"
    "\<bar>cx\<bar> \<le> 10 ^ 9" "\<bar>cy\<bar> \<le> 10 ^ 9"
    using assms by (simp_all add: int_point_ok_def p)
  let ?M = "2 * 10 ^ 9 :: real"
  have m: "1 \<le> ?M" by simp
  have t: "2000000 * (?M * ?M) < overflow_threshold"
    by (rule int_threshold)
  note s = int_sub [OF h(1) h(3)] int_sub [OF h(2) h(4)] int_sub [OF h(5) h(3)] int_sub [OF h(6) h(4)]
  note r = real_abs_bound [OF s(2)] real_abs_bound [OF s(4)] real_abs_bound [OF s(6)] real_abs_bound [OF s(8)]
  have ba: "nd_sub (int_array a) (int_array b) = IntArr (ax - bx) (ay - by')"
    by (simp add: int_array_def p s)
  have bc: "nd_sub (int_array c) (int_array b) = IntArr (cx - bx) (cy - by')"
    by (simp add: int_array_def p s)
  have d: "scalar_float (nd_dot (IntArr (ax - bx) (ay - by')) (IntArr (cx - bx) (cy - by')))
      = Finite (real_of_int (ax - bx) * real_of_int (cx - bx) + real_of_int (ay - by') * real_of_int (cy - by'))"
    using int_dot [OF s(2) s(4) s(6) s(8)] by simp
  have "np_calculate_angle (int_array a) (int_array b) (int_array c)
      = Finite (degrees (arccos (clip
          (dot (real_of_int (ax - bx), real_of_int (ay - by')) (real_of_int (cx - bx), real_of_int (cy - by'))
           / denominator (real_of_int (ax - bx), real_of_int (ay - by'))
                         (real_of_int (cx - bx), real_of_int (cy - by'))) (- 1) 1)))"
    unfolding np_calculate_angle_def Let_def ba bc d
    using float_pipeline [OF r m t]
    by (simp add: nd_norm_def)
  then show ?thesis
    by (simp add: calculate_angle_def cosine_angle_def sub_def pt_def p Let_def)
qed

text \<open>
  C4, as stated, fails: on the float points a = c = (1e200, 0) and b = (0, 0) the dot
  product and both norms overflow to infinity, their quotient is NaN, and NaN passes
  through clip, arccos and degrees. The value returned is not a finite number in [0, 180].
\<close>

theorem calculate_angle_overflow_counterexample:
  "np_calculate_angle (float_array (10 ^ 200, 0)) (float_array (0, 0)) (float_array (10 ^ 200, 0)) = NaN"
  by (simp add: np_calculate_angle_def nd_norm_def f64_sub_def f64_def overflow_threshold_def Let_def
      float_array_def)

text \<open>
  C4, amended. On three points with finite float coordinates of magnitude at most
  \<open>10 ^ 150\<close>, and on three points with integer coordinates of magnitude at most
  \<open>10 ^ 9\<close> (every pixel coordinate is far inside), the function returns a finite
  number, equal to the angle over the reals up to rounding, between 0 and 180 degrees; the
  divisor is strictly positive, so a vector of length zero is no exception; no integer
  wraps and no operation on this path can raise.
\<close>

theorem calculate_angle_bounded:
  "(float_point_ok a \<and> float_point_ok b \<and> float_point_ok c \<longrightarrow>
      np_calculate_angle (float_array a) (float_array b) (float_array c) = Finite (calculate_angle a b c)
      \<and> 0 \<le> calculate_angle a b c \<and> calculate_angle a b c \<le> 180
      \<and> 0 < denominator (sub a b) (sub c b))
   \<and> (int_point_ok p \<and> int_point_ok q \<and> int_point_ok r \<longrightarrow>
      np_calculate_angle (int_array p) (int_array q) (int_array r)
        = Finite (calculate_angle (pt p) (pt q) (pt r))
      \<and> 0 \<le> calculate_angle (pt p) (pt q) (pt r) \<and> calculate_angle (pt p) (pt q) (pt r) \<le> 180
      \<and> 0 < denominator (sub (pt p) (pt q)) (sub (pt r) (pt q)))"
  using np_calculate_angle_float [of a b c] np_calculate_angle_int [of p q r]
    calculate_angle_real_range [of a b c] calculate_angle_real_range [of "pt p" "pt q" "pt r"]
    denominator_pos [of "sub a b" "sub c b"] denominator_pos [of "sub (pt p) (pt q)" "sub (pt r) (pt q)"]
  by simp

theorem calculate_angle_bounded_witness:
  "float_point_ok (3, 4) \<and> float_point_ok (7, 1)
   \<and> np_calculate_angle (float_array (3, 4)) (float_array (3, 4)) (float_array (7, 1)) = Finite 90
   \<and> int_point_ok (400, 300) \<and> int_point_ok (300, 300) \<and> int_point_ok (300, 0)
   \<and> np_calculate_angle (int_array (400, 300)) (int_array (300, 300)) (int_array (300, 0)) = Finite 90"
proof -
  have f: "float_point_ok (3, 4)" "float_point_ok (7, 1)"
    by (simp_all add: float_point_ok_def)
  have i: "int_point_ok (400, 300)" "int_point_ok (300, 300)" "int_point_ok (300, 0)"
    by (simp_all add: int_point_ok_def)
  have v1: "calculate_angle (3, 4) (3, 4) (7, 1) = 90"
    by (rule calculate_angle_of_cosine_0) (simp add: cosine_angle_degenerate)
  have v2: "calculate_angle (pt (400, 300)) (pt (300, 300)) (pt (300, 0)) = 90"
    by (rule calculate_angle_of_cosine_0) (simp add: cosine_angle_def dot_def sub_def pt_def)
  show ?thesis
    using calculate_angle_bounded [of "(3, 4)" "(3, 4)" "(7, 1)" "(400, 300)" "(300, 300)" "(300, 0)"]
      f i v1 v2
    by simp
qed

section \<open>The feedback branch and the loop body never raise\<close>

lemma posture_feedback_uncalibrated:
  "\<not> is_calibrated st \<Longrightarrow> posture_feedback st f sa na = Inr (st, [])"
  unfolding posture_feedback_def by (simp only: if_False)

lemma posture_feedback_good:
  "is_calibrated st \<Longrightarrow> \<not> (sa < shoulder_threshold st \<or> na < neck_threshold st) \<Longrightarrow>
     posture_feedback st f sa na = Inr (st, overlay st ''Good Posture'' sa na)"
  unfolding posture_feedback_def Let_def by (simp only: if_True if_False)

lemma posture_feedback_suppressed:
  "is_calibrated st \<Longrightarrow> sa < shoulder_threshold st \<or> na < neck_threshold st \<Longrightarrow>
   \<not> clock f - last_alert_time st > alert_cooldown \<Longrightarrow>
     posture_feedback st f sa na = Inr (st, overlay st ''Poor Posture'' sa na)"
  unfolding posture_feedback_def Let_def by (simp only: if_True if_False)

lemma posture_feedback_alert_sound:
  "is_calibrated st \<Longrightarrow> sa < shoulder_threshold st \<or> na < neck_threshold st \<Longrightarrow>
   clock f - last_alert_time st > alert_cooldown \<Longrightarrow> sound_file \<in> files f \<Longrightarrow>
     posture_feedback st f sa na =
       Inr (st\<lparr> last_alert_time := clock f \<rparr>,
            Print alert_message # [PlaySound sound_file] @ overlay st ''Poor Posture'' sa na)"
  unfolding posture_feedback_def playsound_def Let_def by (simp only: if_True if_False sum.case)

lemma posture_feedback_alert_silent:
  "is_calibrated st \<Longrightarrow> sa < shoulder_threshold st \<or> na < neck_threshold st \<Longrightarrow>
   clock f - last_alert_time st > alert_cooldown \<Longrightarrow> sound_file \<notin> files f \<Longrightarrow>
     posture_feedback st f sa na =
       Inr (st\<lparr> last_alert_time := clock f \<rparr>,
            Print alert_message # [] @ overlay st ''Poor Posture'' sa na)"
  unfolding posture_feedback_def playsound_def Let_def by (simp only: if_True if_False sum.case)

lemma state_last_alert_time_same: "st\<lparr> last_alert_time := last_alert_time st \<rparr> = (st::state)"
  by simp

lemma overlay_no_complete: "filter is_complete (overlay st s sa na) = []"
  by (simp add: overlay_def)

lemma posture_feedback_returns:
  "\<exists>t evs. posture_feedback st f sa na = Inr (st\<lparr> last_alert_time := t \<rparr>, evs)
     \<and> filter is_complete evs = []"
proof (cases "is_calibrated st")
  case False
  then have eq: "posture_feedback st f sa na = Inr (st, [])"
    by (rule posture_feedback_uncalibrated)
  show ?thesis
    by (rule exI [of _ "last_alert_time st"], rule exI [of _ "[]"]) (simp add: eq)
next
  case cal: True
  show ?thesis
  proof (cases "sa < shoulder_threshold st \<or> na < neck_threshold st")
    case False
    have eq: "posture_feedback st f sa na = Inr (st, overlay st ''Good Posture'' sa na)"
      by (rule posture_feedback_good [OF cal False])
    show ?thesis
      by (rule exI [of _ "last_alert_time st"], rule exI [of _ "overlay st ''Good Posture'' sa na"])
         (simp add: eq overlay_no_complete)
  next
    case poor: True
    show ?thesis
    proof (cases "clock f - last_alert_time st > alert_cooldown")
      case False
      have eq: "posture_feedback st f sa na = Inr (st, overlay st ''Poor Posture'' sa na)"
        by (rule posture_feedback_suppressed [OF cal poor False])
      show ?thesis
        by (rule exI [of _ "last_alert_time st"], rule exI [of _ "overlay st ''Poor Posture'' sa na"])
           (simp add: eq overlay_no_complete)
    next
      case due: True
      show ?thesis
      proof (cases "sound_file \<in> files f")
        case True
        have "filter is_complete (Print alert_message # [PlaySound sound_file] @ overlay st ''Poor Posture'' sa na) = []"
          by (simp add: overlay_no_complete)
        then show ?thesis
          using posture_feedback_alert_sound [OF cal poor due True] by fastforce
      next
        case False
        have "filter is_complete (Print alert_message # [] @ overlay st ''Poor Posture'' sa na) = []"
          by (simp add: overlay_no_complete)
        then show ?thesis
          using posture_feedback_alert_silent [OF cal poor due False] by fastforce
      qed
    qed
  qed
qed

lemma loop_body_not_read: "\<not> ret f \<Longrightarrow> loop_body st f = Inr (st, [])"
  by (simp add: loop_body_def)

lemma loop_body_no_pose: "ret f \<Longrightarrow> pose_landmarks f = None \<Longrightarrow> loop_body st f = Inr (st, [ImShow])"
  by (simp add: loop_body_def)

lemma loop_body_pose:
  assumes "ret f" "pose_landmarks f = Some lm"
    and "posture_feedback (fst (calibration st (shoulder_angle lm) (neck_angle lm))) f
           (shoulder_angle lm) (neck_angle lm) = Inr (st2, ev3)"
  shows "loop_body st f =
     Inr (st2, snd (calibration st (shoulder_angle lm) (neck_angle lm))
               @ [DrawLandmarks,
                  DrawAngle (left_shoulder lm) (shoulder_mid lm) (fst (shoulder_mid lm), 0) (shoulder_angle lm),
                  DrawAngle (left_ear lm) (left_shoulder lm) (fst (left_shoulder lm), 0) (neck_angle lm)]
               @ ev3 @ [ImShow])"
  using assms by (simp add: loop_body_def Let_def case_prod_beta)

lemma detected_None: "detected f = None \<longleftrightarrow> \<not> ret f \<or> pose_landmarks f = None"
  by (simp add: detected_def)

lemma detected_Some: "detected f = Some lm \<longleftrightarrow> ret f \<and> pose_landmarks f = Some lm"
  by (simp add: detected_def)

lemma loop_body_undetected:
  assumes "detected f = None"
  shows "\<exists>ev. loop_body st f = Inr (st, ev) \<and> filter is_complete ev = [] \<and> filter is_feedback ev = []"
proof (cases "ret f")
  case False
  then show ?thesis by (simp add: loop_body_not_read)
next
  case True
  with assms have "pose_landmarks f = None" by (simp add: detected_def)
  with True show ?thesis by (simp add: loop_body_no_pose)
qed

lemma loop_body_detected:
  assumes "detected f = Some lm"
  shows "\<exists>t ev3. loop_body st f =
           Inr ((fst (calibration st (shoulder_angle lm) (neck_angle lm)))\<lparr> last_alert_time := t \<rparr>,
                snd (calibration st (shoulder_angle lm) (neck_angle lm))
                  @ [DrawLandmarks,
                     DrawAngle (left_shoulder lm) (shoulder_mid lm) (fst (shoulder_mid lm), 0) (shoulder_angle lm),
                     DrawAngle (left_ear lm) (left_shoulder lm) (fst (left_shoulder lm), 0) (neck_angle lm)]
                  @ ev3 @ [ImShow])
         \<and> filter is_complete ev3 = []
         \<and> posture_feedback (fst (calibration st (shoulder_angle lm) (neck_angle lm))) f
              (shoulder_angle lm) (neck_angle lm)
            = Inr ((fst (calibration st (shoulder_angle lm) (neck_angle lm)))\<lparr> last_alert_time := t \<rparr>, ev3)"
proof -
  from assms have r: "ret f" and p: "pose_landmarks f = Some lm"
    by (simp_all add: detected_Some)
  obtain t ev3 where pf: "posture_feedback (fst (calibration st (shoulder_angle lm) (neck_angle lm))) f
        (shoulder_angle lm) (neck_angle lm)
        = Inr ((fst (calibration st (shoulder_angle lm) (neck_angle lm)))\<lparr> last_alert_time := t \<rparr>, ev3)"
    and nc: "filter is_complete ev3 = []"
    using posture_feedback_returns by blast
  from loop_body_pose [OF r p pf] nc pf show ?thesis by blast
qed

lemma loop_body_returns: "\<exists>st' ev. loop_body st f = Inr (st', ev)"
proof (cases "detected f")
  case None
  then show ?thesis using loop_body_undetected by blast
next
  case (Some lm)
  then show ?thesis using loop_body_detected by blast
qed

section \<open>The calibration tracker\<close>

lemma calibration_collecting:
  "\<not> is_calibrated st \<Longrightarrow> calibration_frames st < 30 \<Longrightarrow>
     calibration st sa na =
       (st\<lparr> calibration_shoulder_angles := calibration_shoulder_angles st @ [sa],
            calibration_neck_angles := calibration_neck_angles st @ [na],
            calibration_frames := calibration_frames st + 1 \<rparr>,
        [Calibrating (calibration_frames st + 1)])"
  by (simp add: calibration_def)

lemma calibration_finalizing:
  "\<not> is_calibrated st \<Longrightarrow> \<not> calibration_frames st < 30 \<Longrightarrow>
     calibration st sa na =
       (st\<lparr> shoulder_threshold := mean (calibration_shoulder_angles st) - 10,
            neck_threshold := mean (calibration_neck_angles st) - 10,
            is_calibrated := True \<rparr>,
        [CalibrationComplete (mean (calibration_shoulder_angles st) - 10)
                             (mean (calibration_neck_angles st) - 10)])"
  by (simp add: calibration_def Let_def)

lemma calibration_done: "is_calibrated st \<Longrightarrow> calibration st sa na = (st, [])"
  by (simp add: calibration_def)

lemma step_calibrated:
  assumes "is_calibrated st"
  shows "\<exists>st' ev. loop_body st f = Inr (st', ev) \<and> is_calibrated st'
           \<and> calibration_shoulder_angles st' = calibration_shoulder_angles st
           \<and> calibration_neck_angles st' = calibration_neck_angles st
           \<and> calibration_frames st' = calibration_frames st
           \<and> shoulder_threshold st' = shoulder_threshold st
           \<and> neck_threshold st' = neck_threshold st
           \<and> filter is_complete ev = []"
proof (cases "detected f")
  case None
  from loop_body_undetected [OF None, of st] assms show ?thesis by auto
next
  case (Some lm)
  from loop_body_detected [OF Some, of st] obtain t ev3 where
    "loop_body st f = Inr (st\<lparr> last_alert_time := t \<rparr>,
        [DrawLandmarks,
         DrawAngle (left_shoulder lm) (shoulder_mid lm) (fst (shoulder_mid lm), 0) (shoulder_angle lm),
         DrawAngle (left_ear lm) (left_shoulder lm) (fst (left_shoulder lm), 0) (neck_angle lm)]
        @ ev3 @ [ImShow])"
    and "filter is_complete ev3 = []"
    by (auto simp: calibration_done [OF assms])
  with assms show ?thesis by simp
qed

lemma step_collecting:
  assumes "\<not> is_calibrated st" "calibration_frames st < 30" "detected f = Some lm"
  shows "\<exists>ev. loop_body st f =
            Inr (st\<lparr> calibration_shoulder_angles := calibration_shoulder_angles st @ [shoulder_angle lm],
                     calibration_neck_angles := calibration_neck_angles st @ [neck_angle lm],
                     calibration_frames := calibration_frames st + 1 \<rparr>, ev)
          \<and> filter is_complete ev = [] \<and> filter is_feedback ev = []"
proof -
  let ?st1 = "st\<lparr> calibration_shoulder_angles := calibration_shoulder_angles st @ [shoulder_angle lm],
                   calibration_neck_angles := calibration_neck_angles st @ [neck_angle lm],
                   calibration_frames := calibration_frames st + 1 \<rparr>"
  have c: "calibration st (shoulder_angle lm) (neck_angle lm) = (?st1, [Calibrating (calibration_frames st + 1)])"
    by (rule calibration_collecting [OF assms(1,2)])
  have "\<not> is_calibrated ?st1" using assms(1) by simp
  then have pf: "posture_feedback ?st1 f (shoulder_angle lm) (neck_angle lm) = Inr (?st1, [])"
    by (rule posture_feedback_uncalibrated)
  from assms(3) have r: "ret f" and p: "pose_landmarks f = Some lm"
    by (simp_all add: detected_Some)
  have pf': "posture_feedback (fst (calibration st (shoulder_angle lm) (neck_angle lm))) f
      (shoulder_angle lm) (neck_angle lm) = Inr (?st1, [])"
    using pf by (simp only: c fst_conv)
  show ?thesis
    unfolding loop_body_pose [OF r p pf'] c by simp
qed

lemma step_finalizing:
  assumes "\<not> is_calibrated st" "\<not> calibration_frames st < 30" "detected f = Some lm"
  shows "\<exists>st' ev. loop_body st f = Inr (st', ev) \<and> is_calibrated st'
           \<and> calibration_shoulder_angles st' = calibration_shoulder_angles st
           \<and> calibration_neck_angles st' = calibration_neck_angles st
           \<and> calibration_frames st' = calibration_frames st
           \<and> shoulder_threshold st' = mean (calibration_shoulder_angles st) - 10
           \<and> neck_threshold st' = mean (calibration_neck_angles st) - 10
           \<and> length (filter is_complete ev) = 1"
proof -
  have c: "calibration st (shoulder_angle lm) (neck_angle lm) =
       (st\<lparr> shoulder_threshold := mean (calibration_shoulder_angles st) - 10,
            neck_threshold := mean (calibration_neck_angles st) - 10,
            is_calibrated := True \<rparr>,
        [CalibrationComplete (mean (calibration_shoulder_angles st) - 10)
                             (mean (calibration_neck_angles st) - 10)])"
    by (rule calibration_finalizing [OF assms(1,2)])
  from loop_body_detected [OF assms(3), of st] obtain t ev3 where
    lb: "loop_body st f = Inr ((fst (calibration st (shoulder_angle lm) (neck_angle lm)))\<lparr> last_alert_time := t \<rparr>,
                snd (calibration st (shoulder_angle lm) (neck_angle lm))
                  @ [DrawLandmarks,
                     DrawAngle (left_shoulder lm) (shoulder_mid lm) (fst (shoulder_mid lm), 0) (shoulder_angle lm),
                     DrawAngle (left_ear lm) (left_shoulder lm) (fst (left_shoulder lm), 0) (neck_angle lm)]
                  @ ev3 @ [ImShow])"
    and nc: "filter is_complete ev3 = []"
    by blast
  show ?thesis
    unfolding lb c using nc by simp
qed

lemma run_Cons_Inr:
  "loop_body st f = Inr (st1, ev) \<Longrightarrow>
   run st1 (if ret f \<and> key_q f then [] else fs) = Inr (st2, evs) \<Longrightarrow>
   run st (f # fs) = Inr (st2, ev # evs)"
  by (cases "ret f \<and> key_q f") auto

lemma executed_Cons: "executed (f # fs) = f # executed (if ret f \<and> key_q f then [] else fs)"
  by simp

lemma samples_Nil: "samples [] = []"
  by (simp add: samples_def List.map_filter_simps)

lemma samples_Cons:
  "samples (f # fs) =
     (case detected f of None \<Rightarrow> [] | Some lm \<Rightarrow> [(shoulder_angle lm, neck_angle lm)])
     @ samples (if ret f \<and> key_q f then [] else fs)"
  by (simp add: samples_def List.map_filter_simps split: option.split)

lemma completions_Nil: "completions [] = 0"
  by (simp add: completions_def)

lemma completions_Cons: "completions (ev # evs) = length (filter is_complete ev) + completions evs"
  by (simp add: completions_def)

lemma run_calibrated:
  "is_calibrated st \<Longrightarrow>
   \<exists>st' outs. run st fs = Inr (st', outs) \<and> is_calibrated st'
      \<and> calibration_shoulder_angles st' = calibration_shoulder_angles st
      \<and> calibration_neck_angles st' = calibration_neck_angles st
      \<and> calibration_frames st' = calibration_frames st
      \<and> shoulder_threshold st' = shoulder_threshold st
      \<and> neck_threshold st' = neck_threshold st
      \<and> completions outs = 0"
proof (induction fs arbitrary: st)
  case Nil
  then show ?case by (simp add: completions_Nil)
next
  case (Cons f fs)
  from step_calibrated [OF Cons.prems, of f] obtain st1 ev where
    lb: "loop_body st f = Inr (st1, ev)" and cal1: "is_calibrated st1"
    and same1: "calibration_shoulder_angles st1 = calibration_shoulder_angles st"
      "calibration_neck_angles st1 = calibration_neck_angles st"
      "calibration_frames st1 = calibration_frames st"
      "shoulder_threshold st1 = shoulder_threshold st"
      "neck_threshold st1 = neck_threshold st"
    and nc: "filter is_complete ev = []"
    by blast
  have "\<exists>st' outs. run st1 (if ret f \<and> key_q f then [] else fs) = Inr (st', outs) \<and> is_calibrated st'
      \<and> calibration_shoulder_angles st' = calibration_shoulder_angles st1
      \<and> calibration_neck_angles st' = calibration_neck_angles st1
      \<and> calibration_frames st' = calibration_frames st1
      \<and> shoulder_threshold st' = shoulder_threshold st1
      \<and> neck_threshold st' = neck_threshold st1
      \<and> completions outs = 0"
  proof (cases "ret f \<and> key_q f")
    case True
    then show ?thesis using cal1 by (simp add: completions_Nil)
  next
    case False
    then have "(if ret f \<and> key_q f then [] else fs) = fs" by auto
    then show ?thesis using Cons.IH [OF cal1] by simp
  qed
  then obtain st2 evs where
    r: "run st1 (if ret f \<and> key_q f then [] else fs) = Inr (st2, evs)" and cal2: "is_calibrated st2"
    and same2: "calibration_shoulder_angles st2 = calibration_shoulder_angles st1"
      "calibration_neck_angles st2 = calibration_neck_angles st1"
      "calibration_frames st2 = calibration_frames st1"
      "shoulder_threshold st2 = shoulder_threshold st1"
      "neck_threshold st2 = neck_threshold st1"
    and c0: "completions evs = 0"
    by blast
  have "run st (f # fs) = Inr (st2, ev # evs)"
    by (rule run_Cons_Inr [OF lb r])
  moreover have "completions (ev # evs) = 0"
    by (simp add: completions_Cons nc c0)
  ultimately show ?case
    using cal2 same1 same2 by simp
qed

lemma run_collecting:
  "\<not> is_calibrated st \<Longrightarrow>
   calibration_frames st = int (length (calibration_shoulder_angles st)) \<Longrightarrow>
   length (calibration_neck_angles st) = length (calibration_shoulder_angles st) \<Longrightarrow>
   length (calibration_shoulder_angles st) \<le> 30 \<Longrightarrow>
   \<exists>st' outs. run st fs = Inr (st', outs)
     \<and> calibration_shoulder_angles st' =
         calibration_shoulder_angles st
           @ take (30 - length (calibration_shoulder_angles st)) (map fst (samples fs))
     \<and> calibration_neck_angles st' =
         calibration_neck_angles st
           @ take (30 - length (calibration_shoulder_angles st)) (map snd (samples fs))
     \<and> calibration_frames st' = int (length (calibration_shoulder_angles st'))
     \<and> (is_calibrated st' \<longleftrightarrow> 30 < length (calibration_shoulder_angles st) + length (samples fs))
     \<and> (is_calibrated st' \<longrightarrow>
           shoulder_threshold st' = mean (calibration_shoulder_angles st') - 10
           \<and> neck_threshold st' = mean (calibration_neck_angles st') - 10)
     \<and> (\<not> is_calibrated st' \<longrightarrow>
           shoulder_threshold st' = shoulder_threshold st \<and> neck_threshold st' = neck_threshold st)
     \<and> completions outs = (if 30 < length (calibration_shoulder_angles st) + length (samples fs) then 1 else 0)"
proof (induction "length fs" arbitrary: st fs rule: less_induct)
  case less
  note prems = less.prems
  show ?case
  proof (cases fs)
    case Nil
    then show ?thesis using prems by (simp add: samples_Nil completions_Nil)
  next
    case (Cons f gs)
    define rest where "rest = (if ret f \<and> key_q f then [] else gs)"
    have shorter: "length rest < length fs"
      using Cons by (simp add: rest_def)
    have sm: "samples fs =
        (case detected f of None \<Rightarrow> [] | Some lm \<Rightarrow> [(shoulder_angle lm, neck_angle lm)]) @ samples rest"
      unfolding Cons rest_def by (rule samples_Cons)
    show ?thesis
    proof (cases "detected f")
      case None
      from loop_body_undetected [OF None, of st] obtain ev where
        lb: "loop_body st f = Inr (st, ev)" and nc: "filter is_complete ev = []"
        by blast
      from less.hyps [OF shorter prems] obtain st2 evs where
        r: "run st rest = Inr (st2, evs)"
        and ih: "calibration_shoulder_angles st2 =
           calibration_shoulder_angles st
             @ take (30 - length (calibration_shoulder_angles st)) (map fst (samples rest))"
          "calibration_neck_angles st2 =
           calibration_neck_angles st
             @ take (30 - length (calibration_shoulder_angles st)) (map snd (samples rest))"
          "calibration_frames st2 = int (length (calibration_shoulder_angles st2))"
          "is_calibrated st2 \<longleftrightarrow> 30 < length (calibration_shoulder_angles st) + length (samples rest)"
          "is_calibrated st2 \<longrightarrow>
             shoulder_threshold st2 = mean (calibration_shoulder_angles st2) - 10
             \<and> neck_threshold st2 = mean (calibration_neck_angles st2) - 10"
          "\<not> is_calibrated st2 \<longrightarrow>
             shoulder_threshold st2 = shoulder_threshold st \<and> neck_threshold st2 = neck_threshold st"
          "completions evs =
             (if 30 < length (calibration_shoulder_angles st) + length (samples rest) then 1 else 0)"
        by blast
      have run: "run st fs = Inr (st2, ev # evs)"
        unfolding Cons by (rule run_Cons_Inr [OF lb r [unfolded rest_def]])
      have sm': "samples fs = samples rest"
        using sm None by simp
      have comp: "completions (ev # evs) = completions evs"
        by (simp add: completions_Cons nc)
      show ?thesis
        unfolding run sm' using ih by (simp add: comp)
    next
      case (Some lm)
      have sm': "samples fs = (shoulder_angle lm, neck_angle lm) # samples rest"
        using sm Some by simp
      show ?thesis
      proof (cases "calibration_frames st < 30")
        case True
        let ?st1 = "st\<lparr> calibration_shoulder_angles := calibration_shoulder_angles st @ [shoulder_angle lm],
                         calibration_neck_angles := calibration_neck_angles st @ [neck_angle lm],
                         calibration_frames := calibration_frames st + 1 \<rparr>"
        from step_collecting [OF prems(1) True Some] obtain ev where
          lb: "loop_body st f = Inr (?st1, ev)" and nc: "filter is_complete ev = []"
          by blast
        have len: "length (calibration_shoulder_angles st) < 30"
          using True prems(2) by simp
        have p1: "\<not> is_calibrated ?st1"
          using prems(1) by simp
        have p2: "calibration_frames ?st1 = int (length (calibration_shoulder_angles ?st1))"
          using prems(2) by simp
        have p3: "length (calibration_neck_angles ?st1) = length (calibration_shoulder_angles ?st1)"
          using prems(3) by simp
        have p4: "length (calibration_shoulder_angles ?st1) \<le> 30"
          using len by simp
        from less.hyps [OF shorter p1 p2 p3 p4] obtain st2 evs where
          r: "run ?st1 rest = Inr (st2, evs)"
          and ih: "calibration_shoulder_angles st2 =
             calibration_shoulder_angles ?st1
               @ take (30 - length (calibration_shoulder_angles ?st1)) (map fst (samples rest))"
            "calibration_neck_angles st2 =
             calibration_neck_angles ?st1
               @ take (30 - length (calibration_shoulder_angles ?st1)) (map snd (samples rest))"
            "calibration_frames st2 = int (length (calibration_shoulder_angles st2))"
            "is_calibrated st2 \<longleftrightarrow> 30 < length (calibration_shoulder_angles ?st1) + length (samples rest)"
            "is_calibrated st2 \<longrightarrow>
               shoulder_threshold st2 = mean (calibration_shoulder_angles st2) - 10
               \<and> neck_threshold st2 = mean (calibration_neck_angles st2) - 10"
            "\<not> is_calibrated st2 \<longrightarrow>
               shoulder_threshold st2 = shoulder_threshold ?st1 \<and> neck_threshold st2 = neck_threshold ?st1"
            "completions evs =
               (if 30 < length (calibration_shoulder_angles ?st1) + length (samples rest) then 1 else 0)"
          by blast
        have run: "run st fs = Inr (st2, ev # evs)"
          unfolding Cons by (rule run_Cons_Inr [OF lb r [unfolded rest_def]])
        have comp: "completions (ev # evs) = completions evs"
          by (simp add: completions_Cons nc)
        have tk: "take (30 - length (calibration_shoulder_angles st)) (x # xs)
            = x # take (30 - Suc (length (calibration_shoulder_angles st))) xs" for x :: real and xs
          using len by (simp add: take_Cons')
        have c1: "calibration_shoulder_angles st2 =
            calibration_shoulder_angles st
              @ take (30 - length (calibration_shoulder_angles st)) (map fst (samples fs))"
          using ih(1) by (simp add: sm' tk)
        have c2: "calibration_neck_angles st2 =
            calibration_neck_angles st
              @ take (30 - length (calibration_shoulder_angles st)) (map snd (samples fs))"
          using ih(2) by (simp add: sm' tk)
        have c4: "is_calibrated st2 \<longleftrightarrow> 30 < length (calibration_shoulder_angles st) + length (samples fs)"
          using ih(4) by (simp add: sm')
        have c6: "\<not> is_calibrated st2 \<longrightarrow>
               shoulder_threshold st2 = shoulder_threshold st \<and> neck_threshold st2 = neck_threshold st"
          using ih(6) by simp
        have c7: "completions (ev # evs) =
               (if 30 < length (calibration_shoulder_angles st) + length (samples fs) then 1 else 0)"
          using ih(7) by (simp add: comp sm')
        show ?thesis
          unfolding run using c1 c2 ih(3) c4 ih(5) c6 c7 by blast
      next
        case False
        have len: "length (calibration_shoulder_angles st) = 30"
          using False prems(2,4) by simp
        from step_finalizing [OF prems(1) False Some] obtain st1 ev where
          lb: "loop_body st f = Inr (st1, ev)" and cal1: "is_calibrated st1"
          and same1: "calibration_shoulder_angles st1 = calibration_shoulder_angles st"
            "calibration_neck_angles st1 = calibration_neck_angles st"
            "calibration_frames st1 = calibration_frames st"
            "shoulder_threshold st1 = mean (calibration_shoulder_angles st) - 10"
            "neck_threshold st1 = mean (calibration_neck_angles st) - 10"
          and one: "length (filter is_complete ev) = 1"
          by blast
        from run_calibrated [OF cal1, of rest] obtain st2 evs where
          r: "run st1 rest = Inr (st2, evs)" and cal2: "is_calibrated st2"
          and same2: "calibration_shoulder_angles st2 = calibration_shoulder_angles st1"
            "calibration_neck_angles st2 = calibration_neck_angles st1"
            "calibration_frames st2 = calibration_frames st1"
            "shoulder_threshold st2 = shoulder_threshold st1"
            "neck_threshold st2 = neck_threshold st1"
          and c0: "completions evs = 0"
          by blast
        have run: "run st fs = Inr (st2, ev # evs)"
          unfolding Cons by (rule run_Cons_Inr [OF lb r [unfolded rest_def]])
        have comp: "completions (ev # evs) = 1"
          by (simp add: completions_Cons one c0)
        show ?thesis
          unfolding run using cal2 same1 same2 prems(2) len by (simp add: sm' comp)
      qed
    qed
  qed
qed

section \<open>Concrete frames\<close>

lemma pt_simp: "pt (x, y) = (real_of_int x, real_of_int y)"
  by (simp add: pt_def)

lemma shoulder_angle_level:
  "snd (left_shoulder lm) = snd (right_shoulder lm) \<Longrightarrow> shoulder_angle lm = 90"
proof -
  assume h: "snd (left_shoulder lm) = snd (right_shoulder lm)"
  have "cosine_angle (pt (left_shoulder lm)) (pt (shoulder_mid lm)) (pt (fst (shoulder_mid lm), 0)) = 0"
    using h by (simp add: cosine_angle_def dot_def sub_def pt_def shoulder_mid_def)
  then show ?thesis
    unfolding shoulder_angle_def by (rule calculate_angle_of_cosine_0)
qed

lemma shoulder_angle_level_90: "shoulder_angle level = 90"
  by (rule shoulder_angle_level) (simp add: level_def)

lemma degrees_arccos_less_60:
  assumes "1 / 2 < y" "y \<le> 1"
  shows "degrees (arccos y) < 60"
proof -
  have "arccos y < arccos (1 / 2)"
    using assms by (intro arccos_less_arccos) simp_all
  then have "arccos y < pi / 3" by simp
  then have "arccos y * 180 < 60 * pi" by simp
  then show ?thesis
    by (simp add: degrees_def pos_divide_less_eq)
qed

lemma shoulder_angle_tilted_less_60: "shoulder_angle tilted < 60"
proof -
  let ?c = "cosine_angle (pt (left_shoulder tilted)) (pt (shoulder_mid tilted)) (pt (fst (shoulder_mid tilted), 0))"
  have s1: "sqrt 20000 < 150"
    by (rule real_less_lsqrt) simp_all
  have s2: "sqrt 90000 = 300"
    by (rule real_sqrt_unique) simp_all
  have c: "?c = 30000 / (sqrt 20000 * 300 + 1 / 1000000)"
    by (simp add: cosine_angle_def dot_def sub_def pt_def shoulder_mid_def tilted_def denominator_def
        linalg_norm_def s2)
  have pos: "0 < sqrt 20000 * 300 + 1 / 1000000"
    by (simp add: add_nonneg_pos)
  have "sqrt 20000 * 300 + 1 / 1000000 < 60000"
    using s1 by simp
  then have lo: "1 / 2 < ?c"
    unfolding c using pos by (simp add: pos_less_divide_eq)
  have "30000 \<le> sqrt 20000 * 300 + 1 / 1000000"
  proof -
    have "100 \<le> sqrt 20000"
      by (rule real_le_rsqrt) simp
    then show ?thesis by simp
  qed
  then have hi: "?c \<le> 1"
    unfolding c using pos by (simp add: pos_divide_le_eq)
  have "clip ?c (- 1) 1 = ?c"
    using lo hi by (simp add: clip_def)
  then show ?thesis
    unfolding shoulder_angle_def calculate_angle_def Let_def
    using degrees_arccos_less_60 [OF lo hi] by simp
qed

lemma detected_seen: "detected (seen lm t fl) = Some lm"
  by (simp add: detected_def seen_def)

lemma samples_replicate_seen:
  "samples (replicate n (seen lm t fl)) = replicate n (shoulder_angle lm, neck_angle lm)"
proof (induction n)
  case 0
  show ?case by (simp add: samples_Nil)
next
  case (Suc n)
  have "key_q (seen lm t fl) = False"
    by (simp add: seen_def)
  then show ?case
    using Suc by (simp add: samples_Cons detected_seen)
qed

lemma mean_replicate: "0 < n \<Longrightarrow> mean (replicate n x) = x"
  by (simp add: mean_def sum_list_replicate)

lemma calibration_collected_80: "fst (calibration collected_80 sa na) = calibrated_80"
  by (simp add: calibration_def collected_80_def calibrated_80_def Let_def mean_def sum_list_replicate)

lemma run_init:
  "\<exists>st outs. run init fs = Inr (st, outs)
     \<and> calibration_shoulder_angles st = take 30 (map fst (samples fs))
     \<and> calibration_neck_angles st = take 30 (map snd (samples fs))
     \<and> calibration_frames st = int (min 30 (length (samples fs)))
     \<and> is_calibrated st = (30 < length (samples fs))
     \<and> shoulder_threshold st =
         (if 30 < length (samples fs) then mean (take 30 (map fst (samples fs))) - 10 else 0)
     \<and> neck_threshold st =
         (if 30 < length (samples fs) then mean (take 30 (map snd (samples fs))) - 10 else 0)
     \<and> completions outs = (if 30 < length (samples fs) then 1 else 0)"
proof -
  have p1: "\<not> is_calibrated init"
    and p2: "calibration_frames init = int (length (calibration_shoulder_angles init))"
    and p3: "length (calibration_neck_angles init) = length (calibration_shoulder_angles init)"
    and p4: "length (calibration_shoulder_angles init) \<le> 30"
    by (simp_all add: init_def)
  from run_collecting [OF p1 p2 p3 p4, of fs] obtain st outs where
    r: "run init fs = Inr (st, outs)"
    and c: "calibration_shoulder_angles st =
         calibration_shoulder_angles init
           @ take (30 - length (calibration_shoulder_angles init)) (map fst (samples fs))"
      "calibration_neck_angles st =
         calibration_neck_angles init
           @ take (30 - length (calibration_shoulder_angles init)) (map snd (samples fs))"
      "calibration_frames st = int (length (calibration_shoulder_angles st))"
      "is_calibrated st \<longleftrightarrow> 30 < length (calibration_shoulder_angles init) + length (samples fs)"
      "is_calibrated st \<longrightarrow>
           shoulder_threshold st = mean (calibration_shoulder_angles st) - 10
           \<and> neck_threshold st = mean (calibration_neck_angles st) - 10"
      "\<not> is_calibrated st \<longrightarrow>
           shoulder_threshold st = shoulder_threshold init \<and> neck_threshold st = neck_threshold init"
      "completions outs =
         (if 30 < length (calibration_shoulder_angles init) + length (samples fs) then 1 else 0)"
    by blast
  have e: "calibration_shoulder_angles init = []" "calibration_neck_angles init = []"
    "shoulder_threshold init = 0" "neck_threshold init = 0"
    by (simp_all add: init_def)
  have c1: "calibration_shoulder_angles st = take 30 (map fst (samples fs))"
    using c(1) by (simp add: e)
  have c2: "calibration_neck_angles st = take 30 (map snd (samples fs))"
    using c(2) by (simp add: e)
  have c3: "calibration_frames st = int (min 30 (length (samples fs)))"
    using c(3) by (simp add: c1 min.commute)
  have c4: "is_calibrated st = (30 < length (samples fs))"
    using c(4) by (simp add: e)
  have c5: "shoulder_threshold st =
         (if 30 < length (samples fs) then mean (take 30 (map fst (samples fs))) - 10 else 0)"
    using c(5,6) c4 by (simp add: e c1)
  have c6: "neck_threshold st =
         (if 30 < length (samples fs) then mean (take 30 (map snd (samples fs))) - 10 else 0)"
    using c(5,6) c4 by (simp add: e c2)
  have c7: "completions outs = (if 30 < length (samples fs) then 1 else 0)"
    using c(7) by (simp add: e)
  show ?thesis
    unfolding r using c1 c2 c3 c4 c5 c6 c7 by simp
qed

section \<open>The alert limiter\<close>

lemma posture_feedback_eq:
  "posture_feedback st f sa na =
     Inr (if is_calibrated st then
            (if sa < shoulder_threshold st \<or> na < neck_threshold st then
               (if clock f - last_alert_time st > alert_cooldown then
                  (st\<lparr> last_alert_time := clock f \<rparr>,
                   Print alert_message # (if sound_file \<in> files f then [PlaySound sound_file] else [])
                     @ overlay st ''Poor Posture'' sa na)
                else (st, overlay st ''Poor Posture'' sa na))
             else (st, overlay st ''Good Posture'' sa na))
          else (st, []))"
  by (simp add: posture_feedback_def playsound_def Let_def)

lemma loop_body_detected_eq:
  assumes "detected f = Some lm"
  shows "loop_body st f =
     Inr (fst (projr (posture_feedback (fst (calibration st (shoulder_angle lm) (neck_angle lm))) f
                        (shoulder_angle lm) (neck_angle lm))),
          snd (calibration st (shoulder_angle lm) (neck_angle lm))
            @ [DrawLandmarks,
               DrawAngle (left_shoulder lm) (shoulder_mid lm) (fst (shoulder_mid lm), 0) (shoulder_angle lm),
               DrawAngle (left_ear lm) (left_shoulder lm) (fst (left_shoulder lm), 0) (neck_angle lm)]
            @ snd (projr (posture_feedback (fst (calibration st (shoulder_angle lm) (neck_angle lm))) f
                            (shoulder_angle lm) (neck_angle lm)))
            @ [ImShow])"
proof -
  from assms have r: "ret f" and p: "pose_landmarks f = Some lm"
    by (simp_all add: detected_Some)
  obtain t ev3 where pf: "posture_feedback (fst (calibration st (shoulder_angle lm) (neck_angle lm))) f
        (shoulder_angle lm) (neck_angle lm)
        = Inr ((fst (calibration st (shoulder_angle lm) (neck_angle lm)))\<lparr> last_alert_time := t \<rparr>, ev3)"
    using posture_feedback_returns by blast
  show ?thesis
    unfolding loop_body_pose [OF r p pf] pf by simp
qed

lemma fired_simps:
  "fired [] = False"
  "fired (Print m # es) = (m = alert_message \<or> fired es)"
  "fired (Calibrating n # es) = fired es"
  "fired (CalibrationComplete a b # es) = fired es"
  "fired (DrawLandmarks # es) = fired es"
  "fired (DrawAngle p q r x # es) = fired es"
  "fired (PlaySound s # es) = fired es"
  "fired (Status s # es) = fired es"
  "fired (AngleReadout s a b # es) = fired es"
  "fired (ImShow # es) = fired es"
  "fired (ds @ es) = (fired ds \<or> fired es)"
  by (auto simp: fired_def)

lemma fired_calibration: "fired (snd (calibration st sa na)) = False"
  by (simp add: calibration_def Let_def fired_simps)

lemma fired_overlay: "fired (overlay st s sa na) = False"
  by (simp add: overlay_def fired_simps)

lemma last_alert_time_calibration: "last_alert_time (fst (calibration st sa na)) = last_alert_time st"
  by (simp add: calibration_def Let_def)

lemma is_calibrated_calibration:
  "is_calibrated (fst (calibration st sa na)) = (is_calibrated st \<or> \<not> calibration_frames st < 30)"
  by (auto simp: calibration_def Let_def)

lemma posture_feedback_alert:
  "fired (snd (projr (posture_feedback st f sa na)))
     = (is_calibrated st \<and> (sa < shoulder_threshold st \<or> na < neck_threshold st)
        \<and> clock f - last_alert_time st > alert_cooldown)"
  "last_alert_time (fst (projr (posture_feedback st f sa na)))
     = (if fired (snd (projr (posture_feedback st f sa na))) then clock f else last_alert_time st)"
  "is_calibrated (fst (projr (posture_feedback st f sa na))) = is_calibrated st"
  by (simp_all add: posture_feedback_eq fired_simps fired_overlay)

lemma step_alert:
  assumes "loop_body st f = Inr (st1, ev)"
  shows "last_alert_time st1 = (if fired ev then clock f else last_alert_time st)"
    and "fired ev \<Longrightarrow> clock f - last_alert_time st > alert_cooldown"
    and "fired ev \<Longrightarrow> is_calibrated st1"
proof -
  have "last_alert_time st1 = (if fired ev then clock f else last_alert_time st)
      \<and> (fired ev \<longrightarrow> clock f - last_alert_time st > alert_cooldown \<and> is_calibrated st1)"
  proof (cases "detected f")
    case None
    from loop_body_undetected [OF None, of st] assms have "st1 = st" and "filter is_feedback ev = []"
      by auto
    moreover have "\<not> fired ev"
    proof
      assume "fired ev"
      then have "Print alert_message \<in> set (filter is_feedback ev)"
        by (simp add: fired_def)
      with \<open>filter is_feedback ev = []\<close> show False by simp
    qed
    ultimately show ?thesis by simp
  next
    case (Some lm)
    let ?st0 = "fst (calibration st (shoulder_angle lm) (neck_angle lm))"
    let ?r = "projr (posture_feedback ?st0 f (shoulder_angle lm) (neck_angle lm))"
    from assms have st1: "st1 = fst ?r"
      and ev: "ev = snd (calibration st (shoulder_angle lm) (neck_angle lm))
            @ [DrawLandmarks,
               DrawAngle (left_shoulder lm) (shoulder_mid lm) (fst (shoulder_mid lm), 0) (shoulder_angle lm),
               DrawAngle (left_ear lm) (left_shoulder lm) (fst (left_shoulder lm), 0) (neck_angle lm)]
            @ snd ?r @ [ImShow]"
      unfolding loop_body_detected_eq [OF Some] by simp_all
    have f: "fired ev = fired (snd ?r)"
      unfolding ev by (simp add: fired_simps fired_calibration)
    show ?thesis
      unfolding f st1 posture_feedback_alert by (auto simp: last_alert_time_calibration)
  qed
  then show "last_alert_time st1 = (if fired ev then clock f else last_alert_time st)"
    and "fired ev \<Longrightarrow> clock f - last_alert_time st > alert_cooldown"
    and "fired ev \<Longrightarrow> is_calibrated st1"
    by simp_all
qed

lemma run_Cons_elim:
  assumes "run st (f # fs) = Inr (st', outs)"
  shows "\<exists>st1 ev evs. loop_body st f = Inr (st1, ev)
           \<and> run st1 (if ret f \<and> key_q f then [] else fs) = Inr (st', evs) \<and> outs = ev # evs"
proof -
  from loop_body_returns [of st f] obtain st1 ev where lb: "loop_body st f = Inr (st1, ev)"
    by blast
  show ?thesis
  proof (cases "ret f \<and> key_q f")
    case True
    with assms lb show ?thesis by simp
  next
    case False
    with assms lb show ?thesis
      by (auto split: sum.splits)
  qed
qed

lemma run_returns: "\<exists>st' outs. run st fs = Inr (st', outs)"
proof (induction fs arbitrary: st)
  case Nil
  show ?case by simp
next
  case (Cons f fs)
  from loop_body_returns [of st f] obtain st1 ev where lb: "loop_body st f = Inr (st1, ev)"
    by blast
  have "\<exists>st' evs. run st1 (if ret f \<and> key_q f then [] else fs) = Inr (st', evs)"
    using Cons [of st1] by (cases "ret f \<and> key_q f") simp_all
  then obtain st' evs where "run st1 (if ret f \<and> key_q f then [] else fs) = Inr (st', evs)"
    by blast
  from run_Cons_Inr [OF lb this] show ?case by blast
qed

lemma alert_times_Nil: "alert_times fs [] = []"
  by (simp add: alert_times_def)

lemma alert_times_Cons:
  "alert_times (f # fs) (ev # evs) = (if fired ev then [clock f] else []) @ alert_times fs evs"
  by (simp add: alert_times_def)

lemma run_spaced:
  "run st fs = Inr (st', outs) \<Longrightarrow>
     spaced (last_alert_time st) (alert_times fs outs)
     \<and> last_alert_time st' = last (last_alert_time st # alert_times fs outs)"
proof (induction fs arbitrary: st outs)
  case Nil
  then show ?case by (simp add: alert_times_Nil)
next
  case (Cons f fs)
  from run_Cons_elim [OF Cons.prems] obtain st1 ev evs where
    lb: "loop_body st f = Inr (st1, ev)"
    and r: "run st1 (if ret f \<and> key_q f then [] else fs) = Inr (st', evs)"
    and outs: "outs = ev # evs"
    by blast
  have rest: "spaced (last_alert_time st1) (alert_times fs evs)
     \<and> last_alert_time st' = last (last_alert_time st1 # alert_times fs evs)"
  proof (cases "ret f \<and> key_q f")
    case True
    with r have "st' = st1" "evs = []" by simp_all
    then show ?thesis by (simp add: alert_times_Nil)
  next
    case False
    with r have "run st1 fs = Inr (st', evs)" by simp
    then show ?thesis by (rule Cons.IH)
  qed
  show ?case
  proof (cases "fired ev")
    case True
    with step_alert [OF lb] have "last_alert_time st1 = clock f"
      and "clock f - last_alert_time st > alert_cooldown"
      by simp_all
    with rest True show ?thesis
      by (simp add: outs alert_times_Cons)
  next
    case False
    with step_alert(1) [OF lb] have "last_alert_time st1 = last_alert_time st"
      by simp
    with rest False show ?thesis
      by (simp add: outs alert_times_Cons)
  qed
qed

section \<open>The claims about the frame loop\<close>

text \<open>
  C1. In every run from the initial state, the sample lists hold the angles of the first 30
  pose-detected iterations and nothing else (an iteration without a pose appends nothing),
  the counter equals their number, the calibrated flag is set exactly when a 31st
  pose-detected iteration has run, the thresholds are then the means of the 30 samples minus
  10 (and still 0 before), and the completion line has been logged exactly once if the flag
  is set and never otherwise. On 30 samples of 80 the next pose-detected iteration yields
  the thresholds 70.
\<close>

theorem calibration_tracker:
  "(\<exists>st outs. run init fs = Inr (st, outs)
     \<and> calibration_shoulder_angles st = take 30 (map fst (samples fs))
     \<and> calibration_neck_angles st = take 30 (map snd (samples fs))
     \<and> calibration_frames st = int (min 30 (length (samples fs)))
     \<and> is_calibrated st = (30 < length (samples fs))
     \<and> shoulder_threshold st =
         (if 30 < length (samples fs) then mean (take 30 (map fst (samples fs))) - 10 else 0)
     \<and> neck_threshold st =
         (if 30 < length (samples fs) then mean (take 30 (map snd (samples fs))) - 10 else 0)
     \<and> completions outs = (if 30 < length (samples fs) then 1 else 0))
   \<and> fst (calibration collected_80 sa na) = calibrated_80"
  using run_init [of fs] calibration_collected_80 [of sa na] by simp

theorem calibration_tracker_witness:
  "(\<exists>st outs. run init (replicate 31 (seen level 0 {})) = Inr (st, outs)
     \<and> calibration_shoulder_angles st = replicate 30 90
     \<and> calibration_neck_angles st = replicate 30 (neck_angle level)
     \<and> calibration_frames st = 30
     \<and> is_calibrated st
     \<and> shoulder_threshold st = 80
     \<and> neck_threshold st = neck_angle level - 10
     \<and> completions outs = 1)
   \<and> fst (calibration collected_80 85 85) = calibrated_80"
  using calibration_tracker [of "replicate 31 (seen level 0 {})" 85 85]
  by (simp add: samples_replicate_seen shoulder_angle_level_90 mean_replicate)

text \<open>
  C8, as stated, fails: three iterations after the thresholds were computed the 30 raw
  samples are still in the state.
\<close>

theorem samples_discarded_counterexample:
  "is_calibrated (fst (projr (run init (replicate 34 (seen level 0 {})))))
   \<and> calibration_shoulder_angles (fst (projr (run init (replicate 34 (seen level 0 {})))))
       = replicate 30 90"
proof -
  from run_init [of "replicate 34 (seen level 0 {})"] obtain st outs where
    r: "run init (replicate 34 (seen level 0 {})) = Inr (st, outs)"
    and c: "is_calibrated st = (30 < length (samples (replicate 34 (seen level 0 {}))))"
      "calibration_shoulder_angles st = take 30 (map fst (samples (replicate 34 (seen level 0 {}))))"
    by blast
  show ?thesis
    unfolding r using c by (simp add: samples_replicate_seen shoulder_angle_level_90)
qed

text \<open>
  C8, amended. From a calibrated state, after any further iterations the two thresholds are
  unchanged and the state is still calibrated; the raw samples and the counter are not
  discarded but stay in the state, unchanged as well.
\<close>

theorem thresholds_and_samples_persist:
  "is_calibrated st \<Longrightarrow>
   \<exists>st' outs. run st fs = Inr (st', outs) \<and> is_calibrated st'
      \<and> shoulder_threshold st' = shoulder_threshold st
      \<and> neck_threshold st' = neck_threshold st
      \<and> calibration_shoulder_angles st' = calibration_shoulder_angles st
      \<and> calibration_neck_angles st' = calibration_neck_angles st
      \<and> calibration_frames st' = calibration_frames st"
  using run_calibrated [of st fs] by blast

theorem thresholds_and_samples_persist_witness:
  "is_calibrated calibrated_80
   \<and> (\<exists>st' outs. run calibrated_80 [seen tilted 100 {}, seen level 105 {}] = Inr (st', outs)
        \<and> is_calibrated st'
        \<and> shoulder_threshold st' = 70
        \<and> neck_threshold st' = 70
        \<and> calibration_shoulder_angles st' = replicate 30 80
        \<and> calibration_neck_angles st' = replicate 30 80
        \<and> calibration_frames st' = 30)"
proof -
  have h: "is_calibrated calibrated_80"
    by (simp add: calibrated_80_def)
  show ?thesis
    using h thresholds_and_samples_persist [OF h, of "[seen tilted 100 {}, seen level 105 {}]"]
    by (simp add: calibrated_80_def)
qed

lemma statuses_append: "statuses (ds @ es) = statuses ds @ statuses es"
  by (induction ds rule: statuses.induct) simp_all

lemma statuses_calibration: "statuses (snd (calibration st sa na)) = []"
  by (simp add: calibration_def Let_def)

lemma statuses_overlay: "statuses (overlay st s sa na) = [s]"
  by (simp add: overlay_def)

lemma statuses_posture_feedback:
  "statuses (snd (projr (posture_feedback st f sa na))) =
     (if is_calibrated st
      then [if sa < shoulder_threshold st \<or> na < neck_threshold st then ''Poor Posture'' else ''Good Posture'']
      else [])"
  by (simp add: posture_feedback_eq statuses_append statuses_overlay)

lemma thresholds_posture_feedback:
  "shoulder_threshold (fst (projr (posture_feedback st f sa na))) = shoulder_threshold st"
  "neck_threshold (fst (projr (posture_feedback st f sa na))) = neck_threshold st"
  by (simp_all add: posture_feedback_eq)

lemma posture_feedback_projr:
  "posture_feedback st f sa na = Inr (projr (posture_feedback st f sa na))"
  by (simp add: posture_feedback_eq)

lemma loop_body_undetected_eq:
  "detected f = None \<Longrightarrow> loop_body st f = Inr (st, if ret f then [ImShow] else [])"
  by (auto simp: detected_None loop_body_not_read loop_body_no_pose)

lemma loop_body_projr: "loop_body st f = Inr (projr (loop_body st f))"
  using loop_body_returns [of st f] by auto

lemma statuses_loop_body:
  "statuses (snd (projr (loop_body st g))) =
     (case detected g of
        None \<Rightarrow> []
      | Some lm \<Rightarrow>
          if is_calibrated (fst (projr (loop_body st g)))
          then [if shoulder_angle lm < shoulder_threshold (fst (projr (loop_body st g)))
                    \<or> neck_angle lm < neck_threshold (fst (projr (loop_body st g)))
                then ''Poor Posture'' else ''Good Posture'']
          else [])"
proof (cases "detected g")
  case None
  then show ?thesis by (simp add: loop_body_undetected_eq)
next
  case (Some lm)
  show ?thesis
    unfolding loop_body_detected_eq [OF Some]
    by (simp add: Some statuses_append statuses_calibration statuses_posture_feedback
        thresholds_posture_feedback posture_feedback_alert(3))
qed

lemma poor_ne_good: "''Poor Posture'' \<noteq> ''Good Posture''"
  by simp

text \<open>
  C2. The feedback branch never fails, and in a calibrated state it shows exactly one status:
  "Poor Posture" if and only if the shoulder angle is below the shoulder threshold or the
  neck angle is below the neck threshold, and "Good Posture" otherwise. In the loop, an
  iteration with a pose that ends calibrated shows that status for the angles of its
  landmarks and the thresholds in its final state.
\<close>

theorem posture_classifier:
  "(\<exists>st' evs. posture_feedback st f sa na = Inr (st', evs)
      \<and> statuses evs =
          (if is_calibrated st
           then [if sa < shoulder_threshold st \<or> na < neck_threshold st
                 then ''Poor Posture'' else ''Good Posture'']
           else [])
      \<and> (statuses evs = [''Poor Posture''])
          = (is_calibrated st \<and> (sa < shoulder_threshold st \<or> na < neck_threshold st))
      \<and> (statuses evs = [''Good Posture''])
          = (is_calibrated st \<and> \<not> (sa < shoulder_threshold st \<or> na < neck_threshold st)))
   \<and> (\<exists>st' evs. loop_body st g = Inr (st', evs)
      \<and> statuses evs =
          (case detected g of
             None \<Rightarrow> []
           | Some lm \<Rightarrow>
               if is_calibrated st'
               then [if shoulder_angle lm < shoulder_threshold st' \<or> neck_angle lm < neck_threshold st'
                     then ''Poor Posture'' else ''Good Posture'']
               else []))"
proof (rule conjI)
  let ?r = "projr (posture_feedback st f sa na)"
  have "posture_feedback st f sa na = Inr (fst ?r, snd ?r)"
    using posture_feedback_projr [of st f sa na] by simp
  moreover have s: "statuses (snd ?r) =
          (if is_calibrated st
           then [if sa < shoulder_threshold st \<or> na < neck_threshold st
                 then ''Poor Posture'' else ''Good Posture'']
           else [])"
    by (rule statuses_posture_feedback)
  moreover have "(statuses (snd ?r) = [''Poor Posture''])
          = (is_calibrated st \<and> (sa < shoulder_threshold st \<or> na < neck_threshold st))"
    unfolding s by simp
  moreover have "(statuses (snd ?r) = [''Good Posture''])
          = (is_calibrated st \<and> \<not> (sa < shoulder_threshold st \<or> na < neck_threshold st))"
    unfolding s by simp
  ultimately show "\<exists>st' evs. posture_feedback st f sa na = Inr (st', evs)
      \<and> statuses evs =
          (if is_calibrated st
           then [if sa < shoulder_threshold st \<or> na < neck_threshold st
                 then ''Poor Posture'' else ''Good Posture'']
           else [])
      \<and> (statuses evs = [''Poor Posture''])
          = (is_calibrated st \<and> (sa < shoulder_threshold st \<or> na < neck_threshold st))
      \<and> (statuses evs = [''Good Posture''])
          = (is_calibrated st \<and> \<not> (sa < shoulder_threshold st \<or> na < neck_threshold st))"
    by blast
next
  let ?r = "projr (loop_body st g)"
  have "loop_body st g = Inr (fst ?r, snd ?r)"
    using loop_body_projr [of st g] by simp
  then show "\<exists>st' evs. loop_body st g = Inr (st', evs)
      \<and> statuses evs =
          (case detected g of
             None \<Rightarrow> []
           | Some lm \<Rightarrow>
               if is_calibrated st'
               then [if shoulder_angle lm < shoulder_threshold st' \<or> neck_angle lm < neck_threshold st'
                     then ''Poor Posture'' else ''Good Posture'']
               else [])"
    using statuses_loop_body [of st g] by blast
qed

theorem posture_classifier_witness:
  "(\<exists>st' evs. posture_feedback calibrated_80 (seen tilted 100 {}) 65 75 = Inr (st', evs)
      \<and> statuses evs = [''Poor Posture''])
   \<and> (\<exists>st' evs. posture_feedback calibrated_80 (seen tilted 100 {}) 75 75 = Inr (st', evs)
      \<and> statuses evs = [''Good Posture''])
   \<and> (\<exists>st' evs. loop_body calibrated_80 (seen tilted 100 {}) = Inr (st', evs)
      \<and> statuses evs = [''Poor Posture''] \<and> is_calibrated st')"
proof -
  have cal: "is_calibrated calibrated_80" "shoulder_threshold calibrated_80 = 70"
    "neck_threshold calibrated_80 = 70"
    by (simp_all add: calibrated_80_def)
  from posture_classifier [of calibrated_80 "seen tilted 100 {}" 65 75 "seen tilted 100 {}"]
  obtain st1 ev1 st2 ev2 where
    a: "posture_feedback calibrated_80 (seen tilted 100 {}) 65 75 = Inr (st1, ev1)"
      "statuses ev1 = [''Poor Posture'']"
    and b: "loop_body calibrated_80 (seen tilted 100 {}) = Inr (st2, ev2)"
      "statuses ev2 = (if is_calibrated st2
               then [if shoulder_angle tilted < shoulder_threshold st2 \<or> neck_angle tilted < neck_threshold st2
                     then ''Poor Posture'' else ''Good Posture'']
               else [])"
    by (auto simp: cal detected_seen)
  from step_calibrated [OF cal(1), of "seen tilted 100 {}"] b(1)
  have c: "is_calibrated st2" "shoulder_threshold st2 = 70"
    by (auto simp: cal)
  have d: "statuses ev2 = [''Poor Posture'']"
    using b(2) c shoulder_angle_tilted_less_60 by simp
  from posture_classifier [of calibrated_80 "seen tilted 100 {}" 75 75 "seen tilted 100 {}"]
  obtain st3 ev3 where
    g: "posture_feedback calibrated_80 (seen tilted 100 {}) 75 75 = Inr (st3, ev3)"
      "statuses ev3 = [''Good Posture'']"
    by (auto simp: cal)
  from a g b(1) d c(1) show ?thesis by blast
qed

lemma clock_seen: "clock (seen lm t fl) = t"
  by (simp add: seen_def)

lemma feedback_calibration: "filter is_feedback (snd (calibration st sa na)) = []"
  by (simp add: calibration_def Let_def)

lemma playsound_calibration: "filter is_playsound (snd (calibration st sa na)) = []"
  by (simp add: calibration_def Let_def)

lemma feedback_posture_feedback:
  "(filter is_feedback (snd (projr (posture_feedback st f sa na))) = []) = (\<not> is_calibrated st)"
  by (simp add: posture_feedback_eq overlay_def)

lemma feedback_loop_body:
  "(filter is_feedback (snd (projr (loop_body st f))) = [])
     = (detected f = None \<or> \<not> is_calibrated (fst (projr (loop_body st f))))"
proof (cases "detected f")
  case None
  then show ?thesis by (simp add: loop_body_undetected_eq)
next
  case (Some lm)
  show ?thesis
    unfolding loop_body_detected_eq [OF Some]
    by (simp add: Some feedback_calibration feedback_posture_feedback posture_feedback_alert(3))
qed

lemma is_calibrated_loop_body:
  "is_calibrated (fst (projr (loop_body st f)))
     = (is_calibrated st \<or> (detected f \<noteq> None \<and> \<not> calibration_frames st < 30))"
proof (cases "detected f")
  case None
  then show ?thesis by (simp add: loop_body_undetected_eq)
next
  case (Some lm)
  show ?thesis
    unfolding loop_body_detected_eq [OF Some]
    by (simp add: Some posture_feedback_alert(3) is_calibrated_calibration)
qed

text \<open>
  C7, amended. An iteration produces feedback (status, readouts, alert print, sound) exactly
  when it saw a pose and ends with the calibrated flag set; the flag is set at the end
  exactly when it was set at the start or the iteration is the finalizing one (a pose, the
  flag not set, and the counter no longer below 30). So collecting iterations produce no
  status and no alert, and the finalizing iteration computes the thresholds and classifies
  in the same pass.
\<close>

theorem feedback_only_when_calibrated:
  "\<exists>st' evs. loop_body st f = Inr (st', evs)
      \<and> (filter is_feedback evs = []) = (detected f = None \<or> \<not> is_calibrated st')
      \<and> is_calibrated st' = (is_calibrated st \<or> (detected f \<noteq> None \<and> \<not> calibration_frames st < 30))"
proof -
  let ?r = "projr (loop_body st f)"
  have "loop_body st f = Inr (fst ?r, snd ?r)"
    using loop_body_projr [of st f] by simp
  then show ?thesis
    using feedback_loop_body [of st f] is_calibrated_loop_body [of st f] by blast
qed

theorem feedback_only_when_calibrated_witness:
  "(\<exists>st' evs. loop_body init (seen level 0 {}) = Inr (st', evs)
      \<and> \<not> is_calibrated st' \<and> filter is_feedback evs = [])
   \<and> (\<exists>st' evs. loop_body collected_80 (seen tilted 100 {}) = Inr (st', evs)
      \<and> is_calibrated st' \<and> filter is_feedback evs \<noteq> [])"
proof -
  have i: "\<not> is_calibrated init" "calibration_frames init < 30"
    by (simp_all add: init_def)
  have c: "\<not> is_calibrated collected_80" "\<not> calibration_frames collected_80 < 30"
    by (simp_all add: collected_80_def)
  show ?thesis
    using feedback_only_when_calibrated [of init "seen level 0 {}"]
      feedback_only_when_calibrated [of collected_80 "seen tilted 100 {}"]
    by (auto simp: detected_seen i c)
qed

text \<open>
  C6. In an iteration with a pose whose state after the calibration branch is calibrated,
  with an angle below its threshold, the cooldown elapsed and the sound file absent: the
  loop body returns without error, prints the alert message, shows "Poor Posture", plays no
  sound and records the alert time; calling the player on the absent file would have raised.
\<close>

theorem missing_sound_file:
  assumes "detected f = Some lm"
    and "is_calibrated (fst (calibration st (shoulder_angle lm) (neck_angle lm)))"
    and "shoulder_angle lm < shoulder_threshold (fst (calibration st (shoulder_angle lm) (neck_angle lm)))
         \<or> neck_angle lm < neck_threshold (fst (calibration st (shoulder_angle lm) (neck_angle lm)))"
    and "clock f - last_alert_time st > alert_cooldown"
    and "sound_file \<notin> files f"
  shows "\<exists>st' evs. loop_body st f = Inr (st', evs)
      \<and> fired evs
      \<and> statuses evs = [''Poor Posture'']
      \<and> filter is_playsound evs = []
      \<and> last_alert_time st' = clock f
      \<and> playsound f sound_file = Inl (PlaysoundException sound_file)"
proof -
  let ?st0 = "fst (calibration st (shoulder_angle lm) (neck_angle lm))"
  have due: "clock f - last_alert_time ?st0 > alert_cooldown"
    using assms(4) by (simp add: last_alert_time_calibration)
  have pf: "posture_feedback ?st0 f (shoulder_angle lm) (neck_angle lm) =
       Inr (?st0\<lparr> last_alert_time := clock f \<rparr>,
            Print alert_message # [] @ overlay ?st0 ''Poor Posture'' (shoulder_angle lm) (neck_angle lm))"
    by (rule posture_feedback_alert_silent [OF assms(2) assms(3) due assms(5)])
  have "playsound f sound_file = Inl (PlaysoundException sound_file)"
    using assms(5) by (simp add: playsound_def)
  then show ?thesis
    unfolding loop_body_detected_eq [OF assms(1)] pf
    by (simp add: fired_simps statuses_append statuses_calibration statuses_overlay
        playsound_calibration overlay_def)
qed

theorem missing_sound_file_witness:
  "detected (seen tilted 100 {}) = Some tilted
   \<and> is_calibrated (fst (calibration calibrated_80 (shoulder_angle tilted) (neck_angle tilted)))
   \<and> shoulder_angle tilted
        < shoulder_threshold (fst (calibration calibrated_80 (shoulder_angle tilted) (neck_angle tilted)))
   \<and> clock (seen tilted 100 {}) - last_alert_time calibrated_80 > alert_cooldown
   \<and> sound_file \<notin> files (seen tilted 100 {})
   \<and> (\<exists>st' evs. loop_body calibrated_80 (seen tilted 100 {}) = Inr (st', evs)
      \<and> fired evs
      \<and> statuses evs = [''Poor Posture'']
      \<and> filter is_playsound evs = []
      \<and> last_alert_time st' = 100)"
proof -
  have cal: "calibration calibrated_80 (shoulder_angle tilted) (neck_angle tilted) = (calibrated_80, [])"
    by (rule calibration_done) (simp add: calibrated_80_def)
  have h1: "detected (seen tilted 100 {}) = Some tilted"
    by (rule detected_seen)
  have h2: "is_calibrated (fst (calibration calibrated_80 (shoulder_angle tilted) (neck_angle tilted)))"
    unfolding cal by (simp add: calibrated_80_def)
  have h3: "shoulder_angle tilted
        < shoulder_threshold (fst (calibration calibrated_80 (shoulder_angle tilted) (neck_angle tilted)))"
    unfolding cal using shoulder_angle_tilted_less_60 by (simp add: calibrated_80_def)
  have h4: "clock (seen tilted 100 {}) - last_alert_time calibrated_80 > alert_cooldown"
    by (simp add: seen_def calibrated_80_def alert_cooldown_def)
  have h5: "sound_file \<notin> files (seen tilted 100 {})"
    by (simp add: seen_def)
  from missing_sound_file [OF h1 h2 disjI1 [OF h3] h4 h5]
  have "\<exists>st' evs. loop_body calibrated_80 (seen tilted 100 {}) = Inr (st', evs)
      \<and> fired evs
      \<and> statuses evs = [''Poor Posture'']
      \<and> filter is_playsound evs = []
      \<and> last_alert_time st' = 100"
    by (auto simp: clock_seen)
  with h1 h2 h3 h4 h5 show ?thesis by blast
qed

lemma run_uncalibrated_last_alert:
  "run st fs = Inr (st', outs) \<Longrightarrow> \<not> is_calibrated st' \<Longrightarrow> last_alert_time st' = last_alert_time st"
proof (induction fs arbitrary: st outs)
  case Nil
  then show ?case by simp
next
  case (Cons f fs)
  from run_Cons_elim [OF Cons.prems(1)] obtain st1 ev evs where
    lb: "loop_body st f = Inr (st1, ev)"
    and r: "run st1 (if ret f \<and> key_q f then [] else fs) = Inr (st', evs)"
    by blast
  have n1: "\<not> is_calibrated st1"
  proof
    assume "is_calibrated st1"
    from run_calibrated [OF this, of "if ret f \<and> key_q f then [] else fs"] r
    have "is_calibrated st'" by auto
    with Cons.prems(2) show False by simp
  qed
  then have "\<not> fired ev"
    using step_alert(3) [OF lb] by blast
  then have a: "last_alert_time st1 = last_alert_time st"
    using step_alert(1) [OF lb] by simp
  have "last_alert_time st' = last_alert_time st1"
  proof (cases "ret f \<and> key_q f")
    case True
    with r show ?thesis by simp
  next
    case False
    with r have "run st1 fs = Inr (st', evs)" by simp
    then show ?thesis using Cons.prems(2) by (rule Cons.IH)
  qed
  with a show ?case by simp
qed

lemma reach_collected_level:
  "fst (projr (run init (replicate 30 (seen level 0 fl)))) = collected_level"
proof -
  from run_init [of "replicate 30 (seen level 0 fl)"] obtain st outs where
    r: "run init (replicate 30 (seen level 0 fl)) = Inr (st, outs)"
    and c: "calibration_shoulder_angles st = take 30 (map fst (samples (replicate 30 (seen level 0 fl))))"
      "calibration_neck_angles st = take 30 (map snd (samples (replicate 30 (seen level 0 fl))))"
      "calibration_frames st = int (min 30 (length (samples (replicate 30 (seen level 0 fl)))))"
      "is_calibrated st = (30 < length (samples (replicate 30 (seen level 0 fl))))"
      "shoulder_threshold st =
         (if 30 < length (samples (replicate 30 (seen level 0 fl)))
          then mean (take 30 (map fst (samples (replicate 30 (seen level 0 fl))))) - 10 else 0)"
      "neck_threshold st =
         (if 30 < length (samples (replicate 30 (seen level 0 fl)))
          then mean (take 30 (map snd (samples (replicate 30 (seen level 0 fl))))) - 10 else 0)"
    by blast
  have n: "\<not> is_calibrated st"
    using c(4) by (simp add: samples_replicate_seen)
  have l: "last_alert_time st = 0"
    using run_uncalibrated_last_alert [OF r n] by (simp add: init_def)
  have "st = collected_level"
    using c n l by (intro state.equality) (simp_all add: collected_level_def samples_replicate_seen)
  then show ?thesis
    unfolding r by simp
qed

lemma calibration_collected_level:
  "calibration collected_level sa na =
     (collected_level\<lparr> shoulder_threshold := 80, neck_threshold := neck_angle level - 10,
                       is_calibrated := True \<rparr>,
      [CalibrationComplete 80 (neck_angle level - 10)])"
proof -
  have n: "\<not> is_calibrated collected_level" "\<not> calibration_frames collected_level < 30"
    by (simp_all add: collected_level_def)
  have m: "mean (calibration_shoulder_angles collected_level) - 10 = 80"
    "mean (calibration_neck_angles collected_level) - 10 = neck_angle level - 10"
    by (simp_all add: collected_level_def mean_replicate shoulder_angle_level_90)
  show ?thesis
    unfolding calibration_finalizing [OF n] m by (rule refl)
qed

lemma finalizing_tilted:
  "statuses (snd (projr (loop_body collected_level (seen tilted t fl)))) = [''Poor Posture'']"
  "fired (snd (projr (loop_body collected_level (seen tilted t fl)))) = (10 < t)"
proof -
  have d: "detected (seen tilted t fl) = Some tilted"
    by (rule detected_seen)
  have l: "last_alert_time collected_level = 0"
    by (simp add: collected_level_def)
  show "statuses (snd (projr (loop_body collected_level (seen tilted t fl)))) = [''Poor Posture'']"
    unfolding loop_body_detected_eq [OF d] calibration_collected_level
    using shoulder_angle_tilted_less_60
    by (simp add: statuses_append statuses_posture_feedback)
  show "fired (snd (projr (loop_body collected_level (seen tilted t fl)))) = (10 < t)"
    unfolding loop_body_detected_eq [OF d] calibration_collected_level
    using shoulder_angle_tilted_less_60
    by (simp add: fired_simps posture_feedback_alert(1) clock_seen l alert_cooldown_def)
qed

text \<open>
  C7, as stated, fails: the state after 30 level frames is not calibrated, and the next
  iteration (the finalizing one) shows a status and fires the alert.
\<close>

theorem feedback_before_calibrated_counterexample:
  "fst (projr (run init (replicate 30 (seen level 0 {})))) = collected_level
   \<and> \<not> is_calibrated collected_level
   \<and> statuses (snd (projr (loop_body collected_level (seen tilted 100 {})))) = [''Poor Posture'']
   \<and> fired (snd (projr (loop_body collected_level (seen tilted 100 {}))))"
  by (simp add: reach_collected_level finalizing_tilted) (simp add: collected_level_def)

text \<open>
  C3, as stated, fails in its example: after 30 level frames the last alert time is still
  its initial value 0, and the first poor-posture iteration, at clock reading 0, shows
  "Poor Posture" without firing the alert.
\<close>

theorem first_alert_at_zero_counterexample:
  "fst (projr (run init (replicate 30 (seen level 0 {''alert.wav''})))) = collected_level
   \<and> last_alert_time collected_level = 0
   \<and> statuses (snd (projr (loop_body collected_level (seen tilted 0 {''alert.wav''})))) = [''Poor Posture'']
   \<and> \<not> fired (snd (projr (loop_body collected_level (seen tilted 0 {''alert.wav''}))))"
  by (simp add: reach_collected_level finalizing_tilted) (simp add: collected_level_def)

lemma loop_body_tilted:
  assumes "is_calibrated st" "60 \<le> shoulder_threshold st"
  shows "fired (snd (projr (loop_body st (seen tilted t fl)))) = (10 < t - last_alert_time st)"
    and "fst (projr (loop_body st (seen tilted t fl)))
           = (if 10 < t - last_alert_time st then st\<lparr> last_alert_time := t \<rparr> else st)"
proof -
  have d: "detected (seen tilted t fl) = Some tilted"
    by (rule detected_seen)
  have c: "calibration st (shoulder_angle tilted) (neck_angle tilted) = (st, [])"
    by (rule calibration_done [OF assms(1)])
  have p: "shoulder_angle tilted < shoulder_threshold st"
    using shoulder_angle_tilted_less_60 assms(2) by simp
  show "fired (snd (projr (loop_body st (seen tilted t fl)))) = (10 < t - last_alert_time st)"
    unfolding loop_body_detected_eq [OF d] c using assms(1) p
    by (simp add: fired_simps posture_feedback_alert(1) clock_seen alert_cooldown_def)
  show "fst (projr (loop_body st (seen tilted t fl)))
           = (if 10 < t - last_alert_time st then st\<lparr> last_alert_time := t \<rparr> else st)"
    unfolding loop_body_detected_eq [OF d] c using assms(1) p
    by (simp add: posture_feedback_eq clock_seen alert_cooldown_def)
qed

lemma loop_body_pair:
  "loop_body st f = Inr (fst (projr (loop_body st f)), snd (projr (loop_body st f)))"
  using loop_body_projr [of st f] by simp

lemma posture_feedback_limiter:
  "\<exists>st' evs. posture_feedback st f sa na = Inr (st', evs)
      \<and> fired evs = (is_calibrated st \<and> (sa < shoulder_threshold st \<or> na < neck_threshold st)
                     \<and> clock f - last_alert_time st > alert_cooldown)
      \<and> last_alert_time st' = (if fired evs then clock f else last_alert_time st)"
proof -
  let ?r = "projr (posture_feedback st f sa na)"
  have "posture_feedback st f sa na = Inr (fst ?r, snd ?r)"
    using posture_feedback_projr [of st f sa na] by simp
  then show ?thesis
    using posture_feedback_alert(1,2) [of st f sa na] by blast
qed

text \<open>
  C3, amended. The feedback branch fires the alert exactly when the state is calibrated, an
  angle is below its threshold and the clock reading exceeds the last alert time by more
  than the cooldown of 10; firing sets the last alert time to the clock reading and nothing
  else changes it. In every run, each alert is more than 10 after the one before it, the
  first more than 10 after the last alert time the run started with (initially 0, so a
  poor-posture frame at clock reading 0 does not fire).
\<close>

theorem alert_limiter:
  "(\<exists>st' evs. posture_feedback st f sa na = Inr (st', evs)
      \<and> fired evs = (is_calibrated st \<and> (sa < shoulder_threshold st \<or> na < neck_threshold st)
                     \<and> clock f - last_alert_time st > alert_cooldown)
      \<and> last_alert_time st' = (if fired evs then clock f else last_alert_time st))
   \<and> (\<exists>st' outs. run st fs = Inr (st', outs)
      \<and> spaced (last_alert_time st) (alert_times fs outs)
      \<and> last_alert_time st' = last (last_alert_time st # alert_times fs outs))"
proof -
  from run_returns [of st fs] obtain st' outs where r: "run st fs = Inr (st', outs)"
    by blast
  from run_spaced [OF r] r have b: "\<exists>st' outs. run st fs = Inr (st', outs)
      \<and> spaced (last_alert_time st) (alert_times fs outs)
      \<and> last_alert_time st' = last (last_alert_time st # alert_times fs outs)"
    by blast
  show ?thesis
    by (rule conjI [OF posture_feedback_limiter b])
qed

theorem alert_limiter_witness:
  "\<exists>st' outs.
      run calibrated_80 [seen tilted 100 {''alert.wav''}, seen tilted 105 {''alert.wav''},
                         seen tilted 111 {''alert.wav''}] = Inr (st', outs)
      \<and> map fired outs = [True, False, True]
      \<and> alert_times [seen tilted 100 {''alert.wav''}, seen tilted 105 {''alert.wav''},
                      seen tilted 111 {''alert.wav''}] outs = [100, 111]
      \<and> spaced 0 [100, 111]
      \<and> last_alert_time st' = 111"
proof -
  let ?f1 = "seen tilted 100 {''alert.wav''}"
  let ?f2 = "seen tilted 105 {''alert.wav''}"
  let ?f3 = "seen tilted 111 {''alert.wav''}"
  let ?s1 = "calibrated_80\<lparr> last_alert_time := 100 \<rparr>"
  let ?s3 = "calibrated_80\<lparr> last_alert_time := 111 \<rparr>"
  let ?e1 = "snd (projr (loop_body calibrated_80 ?f1))"
  let ?e2 = "snd (projr (loop_body ?s1 ?f2))"
  let ?e3 = "snd (projr (loop_body ?s1 ?f3))"
  have c0: "is_calibrated calibrated_80" "60 \<le> shoulder_threshold calibrated_80"
    "last_alert_time calibrated_80 = 0"
    by (simp_all add: calibrated_80_def)
  have c1: "is_calibrated ?s1" "60 \<le> shoulder_threshold ?s1"
    by (simp_all add: calibrated_80_def)
  have q: "key_q (seen tilted t fl) = False" for t fl
    by (simp add: seen_def)
  have lb1: "loop_body calibrated_80 ?f1 = Inr (?s1, ?e1)"
    by (subst loop_body_pair) (simp add: loop_body_tilted(2) [OF c0(1,2)] c0(3))
  have lb2: "loop_body ?s1 ?f2 = Inr (?s1, ?e2)"
    by (subst loop_body_pair) (simp add: loop_body_tilted(2) [OF c1] c0(3))
  have lb3: "loop_body ?s1 ?f3 = Inr (?s3, ?e3)"
    by (subst loop_body_pair) (simp add: loop_body_tilted(2) [OF c1] c0(3))
  have f: "fired ?e1" "\<not> fired ?e2" "fired ?e3"
    using loop_body_tilted(1) [OF c0(1,2), of 100 "{''alert.wav''}"]
      loop_body_tilted(1) [OF c1, of 105 "{''alert.wav''}"]
      loop_body_tilted(1) [OF c1, of 111 "{''alert.wav''}"]
    by (simp_all add: c0(3))
  have r4: "run ?s3 (if ret ?f3 \<and> key_q ?f3 then [] else []) = Inr (?s3, [])"
    by simp
  have r3: "run ?s1 [?f3] = Inr (?s3, [?e3])"
    by (rule run_Cons_Inr [OF lb3 r4])
  have r3': "run ?s1 (if ret ?f2 \<and> key_q ?f2 then [] else [?f3]) = Inr (?s3, [?e3])"
    using r3 by (simp only: q simp_thms if_False)
  have r2: "run ?s1 [?f2, ?f3] = Inr (?s3, [?e2, ?e3])"
    by (rule run_Cons_Inr [OF lb2 r3'])
  have r2': "run ?s1 (if ret ?f1 \<and> key_q ?f1 then [] else [?f2, ?f3]) = Inr (?s3, [?e2, ?e3])"
    using r2 by (simp only: q simp_thms if_False)
  have r: "run calibrated_80 [?f1, ?f2, ?f3] = Inr (?s3, [?e1, ?e2, ?e3])"
    by (rule run_Cons_Inr [OF lb1 r2'])
  have a: "alert_times [?f1, ?f2, ?f3] [?e1, ?e2, ?e3] = [100, 111]"
    using f by (simp add: alert_times_Cons alert_times_Nil clock_seen)
  from alert_limiter [of calibrated_80 ?f1 65 75 "[?f1, ?f2, ?f3]"] obtain st' outs where
    r': "run calibrated_80 [?f1, ?f2, ?f3] = Inr (st', outs)"
    and s: "spaced (last_alert_time calibrated_80) (alert_times [?f1, ?f2, ?f3] outs)"
    and l: "last_alert_time st' = last (last_alert_time calibrated_80 # alert_times [?f1, ?f2, ?f3] outs)"
    by blast
  from r r' have o: "outs = [?e1, ?e2, ?e3]" by simp
  have m1: "map fired outs = [True, False, True]"
    unfolding o using f by simp
  have m2: "alert_times [?f1, ?f2, ?f3] outs = [100, 111]"
    unfolding o by (rule a)
  have m3: "spaced 0 [100, 111]"
    using s unfolding o a c0(3) .
  have m4: "last_alert_time st' = 111"
    using l unfolding o a by simp
  show ?thesis
    by (rule exI [of _ st'], rule exI [of _ outs]) (intro conjI r' m1 m2 m3 m4)
qed

lemma detected_files: "detected (f\<lparr> files := F \<rparr>) = detected f"
  by (simp add: detected_def)

lemma posture_feedback_files:
  "fst (projr (posture_feedback st (f\<lparr> files := F \<rparr>) sa na)) = fst (projr (posture_feedback st f sa na))"
  "filter (\<lambda>e. \<not> is_playsound e) (snd (projr (posture_feedback st (f\<lparr> files := F \<rparr>) sa na)))
     = filter (\<lambda>e. \<not> is_playsound e) (snd (projr (posture_feedback st f sa na)))"
  "fired (snd (projr (posture_feedback st (f\<lparr> files := F \<rparr>) sa na)))
     = fired (snd (projr (posture_feedback st f sa na)))"
  by (simp_all add: posture_feedback_eq fired_simps)

lemma loop_body_files:
  "fst (projr (loop_body st (f\<lparr> files := F \<rparr>))) = fst (projr (loop_body st f))"
  "filter (\<lambda>e. \<not> is_playsound e) (snd (projr (loop_body st (f\<lparr> files := F \<rparr>))))
     = filter (\<lambda>e. \<not> is_playsound e) (snd (projr (loop_body st f)))"
  "fired (snd (projr (loop_body st (f\<lparr> files := F \<rparr>)))) = fired (snd (projr (loop_body st f)))"
proof -
  have "fst (projr (loop_body st (f\<lparr> files := F \<rparr>))) = fst (projr (loop_body st f))
    \<and> filter (\<lambda>e. \<not> is_playsound e) (snd (projr (loop_body st (f\<lparr> files := F \<rparr>))))
       = filter (\<lambda>e. \<not> is_playsound e) (snd (projr (loop_body st f)))
    \<and> fired (snd (projr (loop_body st (f\<lparr> files := F \<rparr>)))) = fired (snd (projr (loop_body st f)))"
  proof (cases "detected f")
    case None
    then have "detected (f\<lparr> files := F \<rparr>) = None"
      by (simp add: detected_files)
    with None show ?thesis
      by (simp add: loop_body_undetected_eq)
  next
    case (Some lm)
    then have s: "detected (f\<lparr> files := F \<rparr>) = Some lm"
      by (simp add: detected_files)
    show ?thesis
      unfolding loop_body_detected_eq [OF Some] loop_body_detected_eq [OF s]
      by (simp add: posture_feedback_files fired_simps)
  qed
  then show "fst (projr (loop_body st (f\<lparr> files := F \<rparr>))) = fst (projr (loop_body st f))"
    and "filter (\<lambda>e. \<not> is_playsound e) (snd (projr (loop_body st (f\<lparr> files := F \<rparr>))))
       = filter (\<lambda>e. \<not> is_playsound e) (snd (projr (loop_body st f)))"
    and "fired (snd (projr (loop_body st (f\<lparr> files := F \<rparr>)))) = fired (snd (projr (loop_body st f)))"
    by simp_all
qed

lemma run_files:
  "run st fs = Inr (st', outs) \<Longrightarrow>
   \<exists>outs'. run st (map (\<lambda>g. g\<lparr> files := G g \<rparr>) fs) = Inr (st', outs')
      \<and> map (filter (\<lambda>e. \<not> is_playsound e)) outs' = map (filter (\<lambda>e. \<not> is_playsound e)) outs
      \<and> alert_times (map (\<lambda>g. g\<lparr> files := G g \<rparr>) fs) outs' = alert_times fs outs"
proof (induction fs arbitrary: st outs)
  case Nil
  then show ?case by (auto simp: alert_times_Nil)
next
  case (Cons f fs)
  let ?f' = "f\<lparr> files := G f \<rparr>"
  let ?fs' = "map (\<lambda>g. g\<lparr> files := G g \<rparr>) fs"
  from run_Cons_elim [OF Cons.prems] obtain st1 ev evs where
    lb: "loop_body st f = Inr (st1, ev)"
    and r: "run st1 (if ret f \<and> key_q f then [] else fs) = Inr (st', evs)"
    and outs: "outs = ev # evs"
    by blast
  let ?ev' = "snd (projr (loop_body st ?f'))"
  have "fst (projr (loop_body st ?f')) = st1"
    using loop_body_files(1) [where st = st and f = f and F = "G f"] lb by simp
  then have lb': "loop_body st ?f' = Inr (st1, ?ev')"
    by (subst loop_body_pair) simp
  have e1: "filter (\<lambda>e. \<not> is_playsound e) ?ev' = filter (\<lambda>e. \<not> is_playsound e) ev"
    using loop_body_files(2) [where st = st and f = f and F = "G f"] lb by simp
  have e2: "fired ?ev' = fired ev"
    using loop_body_files(3) [where st = st and f = f and F = "G f"] lb by simp
  have "\<exists>evs'. run st1 (if ret ?f' \<and> key_q ?f' then [] else ?fs') = Inr (st', evs')
      \<and> map (filter (\<lambda>e. \<not> is_playsound e)) evs' = map (filter (\<lambda>e. \<not> is_playsound e)) evs
      \<and> alert_times ?fs' evs' = alert_times fs evs"
  proof (cases "ret f \<and> key_q f")
    case True
    with r have "st' = st1" "evs = []" by simp_all
    with True show ?thesis by (simp add: alert_times_Nil)
  next
    case False
    with r have "run st1 fs = Inr (st', evs)" by simp
    from Cons.IH [OF this] False show ?thesis by auto
  qed
  then obtain evs' where
    r': "run st1 (if ret ?f' \<and> key_q ?f' then [] else ?fs') = Inr (st', evs')"
    and m: "map (filter (\<lambda>e. \<not> is_playsound e)) evs' = map (filter (\<lambda>e. \<not> is_playsound e)) evs"
    and a: "alert_times ?fs' evs' = alert_times fs evs"
    by blast
  have "run st (?f' # ?fs') = Inr (st', ?ev' # evs')"
    by (rule run_Cons_Inr [OF lb' r'])
  then have "run st (map (\<lambda>g. g\<lparr> files := G g \<rparr>) (f # fs)) = Inr (st', ?ev' # evs')"
    by simp
  moreover have "map (filter (\<lambda>e. \<not> is_playsound e)) (?ev' # evs')
      = map (filter (\<lambda>e. \<not> is_playsound e)) outs"
    by (simp add: outs e1 m)
  moreover have "alert_times (map (\<lambda>g. g\<lparr> files := G g \<rparr>) (f # fs)) (?ev' # evs') = alert_times (f # fs) outs"
    by (simp add: outs alert_times_Cons e2 a)
  ultimately show ?case by blast
qed

lemma playsound_tilted:
  assumes "is_calibrated st" "60 \<le> shoulder_threshold st" "10 < t - last_alert_time st"
  shows "filter is_playsound (snd (projr (loop_body st (seen tilted t fl))))
           = (if sound_file \<in> fl then [PlaySound sound_file] else [])"
proof -
  have d: "detected (seen tilted t fl) = Some tilted"
    by (rule detected_seen)
  have c: "calibration st (shoulder_angle tilted) (neck_angle tilted) = (st, [])"
    by (rule calibration_done [OF assms(1)])
  have p: "shoulder_angle tilted < shoulder_threshold st"
    using shoulder_angle_tilted_less_60 assms(2) by simp
  have f: "files (seen tilted t fl) = fl"
    by (simp add: seen_def)
  show ?thesis
    unfolding loop_body_detected_eq [OF d] c using assms(1,3) p
    by (simp add: posture_feedback_eq clock_seen alert_cooldown_def overlay_def f)
qed

text \<open>
  C10. Replacing the set of existing files of an iteration changes neither the resulting
  state nor whether the alert fires nor any event other than the sound: the last alert
  time is the clock reading whenever the alert fired. Over a whole run, with the files of
  every iteration replaced at will, the final state, the events other than sounds and the
  times of the alerts are the same, and the alerts are spaced by more than the cooldown.
\<close>

theorem alert_time_updated_without_sound:
  "(\<exists>st' evs evs'. loop_body st f = Inr (st', evs) \<and> loop_body st (f\<lparr> files := F \<rparr>) = Inr (st', evs')
      \<and> fired evs' = fired evs
      \<and> filter (\<lambda>e. \<not> is_playsound e) evs' = filter (\<lambda>e. \<not> is_playsound e) evs
      \<and> last_alert_time st' = (if fired evs then clock f else last_alert_time st))
   \<and> (\<exists>st' outs outs'. run st fs = Inr (st', outs)
      \<and> run st (map (\<lambda>g. g\<lparr> files := G g \<rparr>) fs) = Inr (st', outs')
      \<and> map (filter (\<lambda>e. \<not> is_playsound e)) outs' = map (filter (\<lambda>e. \<not> is_playsound e)) outs
      \<and> alert_times (map (\<lambda>g. g\<lparr> files := G g \<rparr>) fs) outs' = alert_times fs outs
      \<and> spaced (last_alert_time st) (alert_times fs outs))"
proof (rule conjI)
  let ?st' = "fst (projr (loop_body st f))"
  let ?evs = "snd (projr (loop_body st f))"
  let ?evs' = "snd (projr (loop_body st (f\<lparr> files := F \<rparr>)))"
  have a: "loop_body st f = Inr (?st', ?evs)"
    by (rule loop_body_pair)
  have b: "loop_body st (f\<lparr> files := F \<rparr>) = Inr (?st', ?evs')"
    by (subst loop_body_pair) (simp add: loop_body_files(1))
  have c: "fired ?evs' = fired ?evs"
    by (rule loop_body_files(3))
  have d: "filter (\<lambda>e. \<not> is_playsound e) ?evs' = filter (\<lambda>e. \<not> is_playsound e) ?evs"
    by (rule loop_body_files(2))
  have e: "last_alert_time ?st' = (if fired ?evs then clock f else last_alert_time st)"
    by (rule step_alert(1) [OF a])
  show "\<exists>st' evs evs'. loop_body st f = Inr (st', evs) \<and> loop_body st (f\<lparr> files := F \<rparr>) = Inr (st', evs')
      \<and> fired evs' = fired evs
      \<and> filter (\<lambda>e. \<not> is_playsound e) evs' = filter (\<lambda>e. \<not> is_playsound e) evs
      \<and> last_alert_time st' = (if fired evs then clock f else last_alert_time st)"
    by (rule exI [of _ ?st'], rule exI [of _ ?evs], rule exI [of _ ?evs']) (intro conjI a b c d e)
next
  from run_returns [of st fs] obtain st' outs where r: "run st fs = Inr (st', outs)"
    by blast
  from run_files [OF r, of G] obtain outs' where
    r': "run st (map (\<lambda>g. g\<lparr> files := G g \<rparr>) fs) = Inr (st', outs')"
    and m: "map (filter (\<lambda>e. \<not> is_playsound e)) outs' = map (filter (\<lambda>e. \<not> is_playsound e)) outs"
    and a: "alert_times (map (\<lambda>g. g\<lparr> files := G g \<rparr>) fs) outs' = alert_times fs outs"
    by blast
  have s: "spaced (last_alert_time st) (alert_times fs outs)"
    using run_spaced [OF r] by simp
  show "\<exists>st' outs outs'. run st fs = Inr (st', outs)
      \<and> run st (map (\<lambda>g. g\<lparr> files := G g \<rparr>) fs) = Inr (st', outs')
      \<and> map (filter (\<lambda>e. \<not> is_playsound e)) outs' = map (filter (\<lambda>e. \<not> is_playsound e)) outs
      \<and> alert_times (map (\<lambda>g. g\<lparr> files := G g \<rparr>) fs) outs' = alert_times fs outs
      \<and> spaced (last_alert_time st) (alert_times fs outs)"
    by (rule exI [of _ st'], rule exI [of _ outs], rule exI [of _ outs']) (intro conjI r r' m a s)
qed

theorem alert_time_updated_without_sound_witness:
  "\<exists>st' evs evs'.
      loop_body calibrated_80 (seen tilted 100 {''alert.wav''}) = Inr (st', evs)
      \<and> loop_body calibrated_80 (seen tilted 100 {}) = Inr (st', evs')
      \<and> fired evs \<and> fired evs'
      \<and> filter is_playsound evs = [PlaySound ''alert.wav'']
      \<and> filter is_playsound evs' = []
      \<and> last_alert_time st' = 100"
proof -
  have c0: "is_calibrated calibrated_80" "60 \<le> shoulder_threshold calibrated_80"
    "last_alert_time calibrated_80 = 0"
    by (simp_all add: calibrated_80_def)
  have due: "10 < 100 - last_alert_time calibrated_80"
    by (simp add: c0(3))
  have u: "(seen tilted 100 {''alert.wav''})\<lparr> files := {} \<rparr> = seen tilted 100 {}"
    by (simp add: seen_def)
  from alert_time_updated_without_sound
    [where st = calibrated_80 and f = "seen tilted 100 {''alert.wav''}" and F = "{}" and fs = "[]"]
  obtain st' evs evs' where
    a: "loop_body calibrated_80 (seen tilted 100 {''alert.wav''}) = Inr (st', evs)"
    and b: "loop_body calibrated_80 (seen tilted 100 {}) = Inr (st', evs')"
    and c: "fired evs' = fired evs"
    and e: "last_alert_time st' = (if fired evs then clock (seen tilted 100 {''alert.wav''})
                                   else last_alert_time calibrated_80)"
    unfolding u by blast
  have f: "fired evs"
    using loop_body_tilted(1) [OF c0(1,2), of 100 "{''alert.wav''}"] a by (simp add: c0(3))
  have f': "fired evs'"
    using c f by simp
  have p: "filter is_playsound evs = [PlaySound ''alert.wav'']"
    using playsound_tilted [OF c0(1,2) due, of "{''alert.wav''}"] a by (simp add: sound_file_def)
  have p': "filter is_playsound evs' = []"
    using playsound_tilted [OF c0(1,2) due, of "{}"] b by simp
  have l: "last_alert_time st' = 100"
    using e f by (simp add: clock_seen)
  show ?thesis
    by (rule exI [of _ st'], rule exI [of _ evs], rule exI [of _ evs']) (intro conjI a b f f' p p' l)
qed

end
